theory Spec2Isabelle
  imports Complex_Main "HOL-Library.AList"
begin

section \<open>JavaScript values\<close>

text \<open>
  Numbers are the extended reals with a not-a-number element. Rounding to the nearest
  double, overflow and the sign of zero are not modelled; none of the properties below
  depends on them.
\<close>

datatype number = NaN | NegInf | Fin real | PosInf

text \<open>A value as the code reads it from an object. A key that the object lacks reads as
  \<open>Undefined\<close>, unless it names one of the members that every object inherits from
  \<^verbatim>\<open>Object.prototype\<close>: then it reads as that member, \<open>Member k\<close>, which is a function
  (for \<^verbatim>\<open>__proto__\<close> the prototype object itself).\<close>

datatype jsval = Undefined | Null | Bool bool | Num number | Str string | Member string

type_synonym params = "string \<Rightarrow> jsval"

text \<open>Truthiness, as tested by \<^verbatim>\<open>!x\<close>, \<^verbatim>\<open>x && y\<close> and \<^verbatim>\<open>x || y\<close>.\<close>

fun num_truthy :: "number \<Rightarrow> bool" where
  "num_truthy NaN = False"
| "num_truthy (Fin a) = (a \<noteq> 0)"
| "num_truthy NegInf = True"
| "num_truthy PosInf = True"

fun truthy :: "jsval \<Rightarrow> bool" where
  "truthy Undefined = False"
| "truthy Null = False"
| "truthy (Bool b) = b"
| "truthy (Num n) = num_truthy n"
| "truthy (Str s) = (s \<noteq> [])"
| "truthy (Member k) = True"

text \<open>The relational operators on numbers: every comparison with \<open>NaN\<close> is false.\<close>

fun num_lt :: "number \<Rightarrow> number \<Rightarrow> bool" where
  "num_lt (Fin a) (Fin b) = (a < b)"
| "num_lt NaN y = False"
| "num_lt x NaN = False"
| "num_lt x NegInf = False"
| "num_lt PosInf y = False"
| "num_lt NegInf y = True"
| "num_lt x PosInf = True"

fun num_le :: "number \<Rightarrow> number \<Rightarrow> bool" where
  "num_le (Fin a) (Fin b) = (a \<le> b)"
| "num_le NaN y = False"
| "num_le x NaN = False"
| "num_le NegInf y = True"
| "num_le x PosInf = True"
| "num_le x NegInf = False"
| "num_le PosInf y = False"

definition num_gt :: "number \<Rightarrow> number \<Rightarrow> bool" where
  "num_gt x y = num_lt y x"

definition num_ge :: "number \<Rightarrow> number \<Rightarrow> bool" where
  "num_ge x y = num_le y x"

text \<open>Arithmetic. \<open>sign_of\<close> and \<open>inf_of_sign\<close> give the sign rules of the infinities;
  a product or quotient of sign zero that involves an infinity or a zero divisor is \<open>NaN\<close>.\<close>

fun sign_of :: "number \<Rightarrow> real" where
  "sign_of NaN = 0"
| "sign_of NegInf = - 1"
| "sign_of PosInf = 1"
| "sign_of (Fin a) = sgn a"

definition inf_of_sign :: "real \<Rightarrow> number" where
  "inf_of_sign s = (if s = 0 then NaN else if 0 < s then PosInf else NegInf)"

fun num_add :: "number \<Rightarrow> number \<Rightarrow> number" where
  "num_add (Fin a) (Fin b) = Fin (a + b)"
| "num_add NaN y = NaN"
| "num_add x NaN = NaN"
| "num_add PosInf NegInf = NaN"
| "num_add NegInf PosInf = NaN"
| "num_add (Fin a) y = y"
| "num_add x y = x"

fun num_mul :: "number \<Rightarrow> number \<Rightarrow> number" where
  "num_mul (Fin a) (Fin b) = Fin (a * b)"
| "num_mul NaN y = NaN"
| "num_mul x NaN = NaN"
| "num_mul x y = inf_of_sign (sign_of x * sign_of y)"

fun num_div :: "number \<Rightarrow> number \<Rightarrow> number" where
  "num_div (Fin a) (Fin b) = (if b = 0 then inf_of_sign (sgn a) else Fin (a / b))"
| "num_div NaN y = NaN"
| "num_div x NaN = NaN"
| "num_div (Fin a) y = Fin 0"
| "num_div NegInf (Fin b) = (if b = 0 then NegInf else inf_of_sign (- sgn b))"
| "num_div PosInf (Fin b) = (if b = 0 then PosInf else inf_of_sign (sgn b))"
| "num_div NegInf y = NaN"
| "num_div PosInf y = NaN"

subsection \<open>The host's string conversions\<close>

text \<open>
  The built-in conversions between strings and numbers belong to the JavaScript host, not
  to the repository. The model takes them as a parameter, so every property proved below
  holds whatever they compute:
  \<^item> \<open>parseFloat_string s\<close> is \<^verbatim>\<open>parseFloat(s)\<close> for a string \<open>s\<close>;
  \<^item> \<open>ToNumber_string s\<close> is the numeric value a relational operator gives a string;
  \<^item> \<open>toFixed d x\<close> is \<^verbatim>\<open>x.toFixed(d)\<close>;
  \<^item> \<open>ToString_number x\<close> is the text of \<open>x\<close> inside a template literal;
  \<^item> \<open>toLowerCase s\<close> is \<^verbatim>\<open>s.toLowerCase()\<close>.
\<close>

record host =
  parseFloat_string :: "string \<Rightarrow> number"
  ToNumber_string :: "string \<Rightarrow> number"
  toFixed :: "nat \<Rightarrow> number \<Rightarrow> string"
  ToString_number :: "number \<Rightarrow> string"
  toLowerCase :: "string \<Rightarrow> string"

text \<open>\<^verbatim>\<open>parseFloat(v)\<close>: the argument is converted to a string first, so \<^verbatim>\<open>undefined\<close>,
  \<^verbatim>\<open>null\<close>, the booleans and the inherited members (whose text is that of a function or
  \<^verbatim>\<open>[object Object]\<close>) give \<open>NaN\<close>, and a number gives itself back.\<close>

fun parseFloat :: "host \<Rightarrow> jsval \<Rightarrow> number" where
  "parseFloat h Undefined = NaN"
| "parseFloat h Null = NaN"
| "parseFloat h (Bool b) = NaN"
| "parseFloat h (Num n) = n"
| "parseFloat h (Str s) = parseFloat_string h s"
| "parseFloat h (Member k) = NaN"

text \<open>The number a relational operator compares when the other operand is a number.\<close>

fun ToNumber :: "host \<Rightarrow> jsval \<Rightarrow> number" where
  "ToNumber h Undefined = NaN"
| "ToNumber h Null = Fin 0"
| "ToNumber h (Bool b) = Fin (if b then 1 else 0)"
| "ToNumber h (Num n) = n"
| "ToNumber h (Str s) = ToNumber_string h s"
| "ToNumber h (Member k) = NaN"

text \<open>\<^verbatim>\<open>s.includes(t)\<close>: \<open>t\<close> occurs in \<open>s\<close> as a contiguous block.\<close>

fun str_includes :: "string \<Rightarrow> string \<Rightarrow> bool" where
  "str_includes [] t = (t = [])"
| "str_includes (c # s) t = (take (length t) (c # s) = t \<or> str_includes s t)"

subsection \<open>Exceptions\<close>

text \<open>A thrown exception is the left summand of a result; \<open>message\<close> reads its text.\<close>

datatype error = Error string | TypeError string

fun message :: "error \<Rightarrow> string" where
  "message (Error m) = m"
| "message (TypeError m) = m"

section \<open>The calculation module (LEEDRules.js)\<close>

record refrigerant_impact =
  lcodp :: number
  lcgwp :: number
  unitImpact :: number
  totalImpact :: number
  totalCapacity :: number
  weightedAverage :: number
  threshold :: number
  ri_units :: string
  ri_compliant :: bool

text \<open>\<^verbatim>\<open>x || d\<close> on numbers.\<close>

definition num_or :: "number \<Rightarrow> number \<Rightarrow> number" where
  "num_or x d = (if num_truthy x then x else d)"

definition CalculationModule_calculateRefrigerantImpact ::
  "host \<Rightarrow> params \<Rightarrow> string \<Rightarrow> error + refrigerant_impact" where
  "CalculationModule_calculateRefrigerantImpact h data units =
    (let gwp = parseFloat h (data ''GWP'');
         odp = num_or (parseFloat h (data ''ODP'')) (Fin 0);
         leakageRate = num_div (parseFloat h (data ''Leakage Rate'')) (Fin 100);
         life = parseFloat h (data ''Equipment Life'');
         refrigerantCharge = parseFloat h (data ''Refrigerant charge'');
         coolingCapacity = parseFloat h (data ''Equipment Cooling Capacity'');
         quantity = num_or (parseFloat h (data ''Equipment Quantity'')) (Fin 1);
         maintenanceFactor = Fin 1;
         lcodp = num_div (num_mul (num_mul odp
                   (num_add (num_mul leakageRate life) maintenanceFactor)) refrigerantCharge) life;
         lcgwp = num_div (num_mul (num_mul gwp
                   (num_add (num_mul leakageRate life) maintenanceFactor)) refrigerantCharge) life;
         unitImpact = num_add lcgwp (num_mul lcodp (Fin (10 ^ 5)));
         totalImpact = num_mul (num_mul unitImpact coolingCapacity) quantity;
         totalCapacity = num_mul coolingCapacity quantity;
         weightedAverage = num_div totalImpact totalCapacity
     in Inr \<lparr>lcodp = lcodp, lcgwp = lcgwp, unitImpact = unitImpact,
             totalImpact = totalImpact, totalCapacity = totalCapacity,
             weightedAverage = weightedAverage,
             threshold = (if units = ''IP'' then Fin 100 else Fin 13),
             ri_units = units,
             ri_compliant =
               num_le weightedAverage (if units = ''IP'' then Fin 100 else Fin 13)\<rparr>)"

definition CalculationModule_calculateSpacePercentage ::
  "host \<Rightarrow> jsval \<Rightarrow> jsval \<Rightarrow> error + number" where
  "CalculationModule_calculateSpacePercentage h totalSpaces controlledSpaces =
    (let total = parseFloat h totalSpaces;
         controlled = parseFloat h controlledSpaces
     in if num_le total (Fin 0) then Inl (Error ''Total spaces must be greater than 0'')
        else Inr (num_mul (num_div controlled total) (Fin 100)))"

text \<open>The rule sets receive the calculation module as an argument; a method either returns
  or throws.\<close>

record calculation_module =
  calculateRefrigerantImpact :: "params \<Rightarrow> string \<Rightarrow> error + refrigerant_impact"
  calculateSpacePercentage :: "jsval \<Rightarrow> jsval \<Rightarrow> error + number"

definition CalculationModule :: "host \<Rightarrow> calculation_module" where
  "CalculationModule h =
    \<lparr>calculateRefrigerantImpact = CalculationModule_calculateRefrigerantImpact h,
     calculateSpacePercentage = CalculationModule_calculateSpacePercentage h\<rparr>"

section \<open>Enhanced Refrigerant Management: \<open>EACr6RuleSet\<close> (LEEDRules.js)\<close>

record option1_requirements =
  refrigerantUsed :: bool
  odpZero :: bool
  gwpLessThan50 :: bool
  confirmationStatement :: bool

record option1_result =
  o1_option :: nat
  o1_compliant :: bool
  o1_gaps :: "string list"
  o1_requirements :: option1_requirements

record option2_result =
  o2_option :: nat
  o2_compliant :: bool
  o2_gaps :: "string list"
  o2_nonCompliant :: "string list"
  o2_calculations :: "refrigerant_impact option"

datatype details = No_details | Option1_details option1_result | Option2_details option2_result

text \<open>The fields every assessment has; \<open>EACr6RuleSet.assess\<close> adds \<open>option\<close> and
  \<open>details\<close>, \<open>IEQCr5RuleSet.assess\<close> adds \<open>parts\<close>.\<close>

record assessment =
  creditId :: string
  creditName :: string
  awarded :: bool
  points :: nat
  maxPoints :: nat
  gaps :: "string list"
  nonCompliant :: "string list"

record eacr6_assessment = assessment +
  option :: "nat option"
  details :: details

definition hasBasicRefrigerantData :: "params \<Rightarrow> bool" where
  "hasBasicRefrigerantData data =
    (truthy (data ''Refrigerant Used'') \<and> data ''ODP'' \<noteq> Undefined \<and> data ''GWP'' \<noteq> Undefined)"

text \<open>\<open>assessOption1\<close> runs four checks in sequence; the second and the third can return
  early. Each definition below is one check followed by the rest of the function.\<close>

definition option1_confirmation :: "params \<Rightarrow> option1_result \<Rightarrow> option1_result" where
  "option1_confirmation data result =
    (let result =
       (if \<not> truthy (data ''Confirmation Statement'')
        then result\<lparr>o1_gaps := o1_gaps result @ [''Confirmation Statement'']\<rparr>
        else result\<lparr>o1_requirements := (o1_requirements result)\<lparr>confirmationStatement := True\<rparr>\<rparr>)
     in if o1_gaps result = [] \<and>
           (refrigerantUsed (o1_requirements result) \<and> odpZero (o1_requirements result) \<and>
            gwpLessThan50 (o1_requirements result) \<and> confirmationStatement (o1_requirements result))
        then result\<lparr>o1_compliant := True\<rparr>
        else result)"

definition option1_gwp :: "host \<Rightarrow> params \<Rightarrow> option1_result \<Rightarrow> option1_result" where
  "option1_gwp h data result =
    (if data ''GWP'' = Undefined \<or> data ''GWP'' = Null
     then option1_confirmation data (result\<lparr>o1_gaps := o1_gaps result @ [''GWP Value'']\<rparr>)
     else if num_ge (ToNumber h (data ''GWP'')) (Fin 50) then result
     else option1_confirmation data
            (result\<lparr>o1_requirements := (o1_requirements result)\<lparr>gwpLessThan50 := True\<rparr>\<rparr>))"

definition option1_odp :: "host \<Rightarrow> params \<Rightarrow> option1_result \<Rightarrow> option1_result" where
  "option1_odp h data result =
    (if data ''ODP'' = Undefined \<or> data ''ODP'' = Null
     then option1_gwp h data (result\<lparr>o1_gaps := o1_gaps result @ [''ODP Value'']\<rparr>)
     else if data ''ODP'' \<noteq> Num (Fin 0) then result
     else option1_gwp h data
            (result\<lparr>o1_requirements := (o1_requirements result)\<lparr>odpZero := True\<rparr>\<rparr>))"

definition assessOption1 :: "host \<Rightarrow> params \<Rightarrow> option1_result" where
  "assessOption1 h data =
    (let result = \<lparr>o1_option = 1, o1_compliant = False, o1_gaps = [],
                   o1_requirements = \<lparr>refrigerantUsed = False, odpZero = False,
                     gwpLessThan50 = False, confirmationStatement = False\<rparr>\<rparr>
     in option1_odp h data
          (if \<not> truthy (data ''Refrigerant Used'')
           then result\<lparr>o1_gaps := o1_gaps result @ [''Refrigerant Used'']\<rparr>
           else result\<lparr>o1_requirements := (o1_requirements result)\<lparr>refrigerantUsed := True\<rparr>\<rparr>))"

definition requiredParams :: "string list" where
  "requiredParams = [''GWP'', ''Refrigerant charge'', ''Leakage Rate'', ''Equipment Life'',
     ''Equipment Cooling Capacity'', ''Equipment Quantity'']"

text \<open>The additional checks for commercial refrigeration. A truthy \<open>Equipment Type\<close> that
  is not a string has no \<^verbatim>\<open>toLowerCase\<close>: the call throws outside any \<^verbatim>\<open>try\<close>.\<close>

definition refrigeration_gaps :: "host \<Rightarrow> params \<Rightarrow> error + string list" where
  "refrigeration_gaps h data =
    (if truthy (data ''Equipment Type'') then
       (case data ''Equipment Type'' of
          Str s \<Rightarrow>
            Inr (if str_includes (toLowerCase h s) ''refrigeration''
                 then (if \<not> truthy (data ''Leakage Test Results'')
                       then [''Leakage Test Results''] else []) @
                      (if \<not> truthy (data ''Greenchill Certification Status'')
                       then [''Greenchill Certification Status''] else [])
                 else [])
        | _ \<Rightarrow> Inl (TypeError ''data.Equipment Type.toLowerCase is not a function''))
     else Inr [])"

text \<open>The calculation step: entered only when no gap has been recorded; an exception of
  the calculation module is caught and becomes a non-compliance message.\<close>

definition option2_calculate ::
  "host \<Rightarrow> calculation_module \<Rightarrow> params \<Rightarrow> string \<Rightarrow> option2_result \<Rightarrow> option2_result" where
  "option2_calculate h calculationModule data units result =
    (if o2_gaps result = [] then
       (case calculateRefrigerantImpact calculationModule data units of
          Inr calculations \<Rightarrow>
            let result = result\<lparr>o2_calculations := Some calculations\<rparr>
            in if num_le (weightedAverage calculations)
                    (if units = ''IP'' then Fin 100 else Fin 13)
               then result\<lparr>o2_compliant := True\<rparr>
               else result\<lparr>o2_nonCompliant := o2_nonCompliant result @
                      [''Weighted average ('' @ toFixed h 2 (weightedAverage calculations) @
                       '') exceeds threshold ('' @
                       (if units = ''IP'' then ''100'' else ''13'') @ '')'']\<rparr>
        | Inl error \<Rightarrow>
            result\<lparr>o2_nonCompliant := o2_nonCompliant result @
              [''Calculation error: '' @ message error]\<rparr>)
     else result)"

definition assessOption2 ::
  "host \<Rightarrow> calculation_module \<Rightarrow> params \<Rightarrow> string \<Rightarrow> error + option2_result" where
  "assessOption2 h calculationModule data units =
    (let result = \<lparr>o2_option = 2, o2_compliant = False,
                   o2_gaps = filter (\<lambda>param. data param = Undefined \<or> data param = Null \<or>
                                       data param = Str []) requiredParams,
                   o2_nonCompliant = [], o2_calculations = None\<rparr>
     in case refrigeration_gaps h data of
          Inl e \<Rightarrow> Inl e
        | Inr more_gaps \<Rightarrow>
            Inr (option2_calculate h calculationModule data units
                   (result\<lparr>o2_gaps := o2_gaps result @ more_gaps\<rparr>)))"

definition EACr6_assess ::
  "host \<Rightarrow> calculation_module \<Rightarrow> params \<Rightarrow> string \<Rightarrow> error + eacr6_assessment" where
  "EACr6_assess h calculationModule data units =
    (let result = \<lparr>creditId = ''EACr6'', creditName = ''Enhanced Refrigerant Management'',
                   awarded = False, points = 0, maxPoints = 1, gaps = [], nonCompliant = [],
                   option = None, details = No_details\<rparr>
     in if hasBasicRefrigerantData data \<and> o1_compliant (assessOption1 h data)
        then Inr (result\<lparr>awarded := True, points := 1, option := Some 1,
                          details := Option1_details (assessOption1 h data)\<rparr>)
        else (case assessOption2 h calculationModule data units of
                Inl e \<Rightarrow> Inl e
              | Inr option2Result \<Rightarrow>
                  let result = result\<lparr>option := Some 2, details := Option2_details option2Result,
                                 gaps := o2_gaps option2Result,
                                 nonCompliant := o2_nonCompliant option2Result\<rparr>
                  in Inr (if o2_compliant option2Result \<and> o2_gaps option2Result = []
                          then result\<lparr>awarded := True, points := 1\<rparr>
                          else result)))"

section \<open>Thermal Comfort: \<open>IEQCr5RuleSet\<close> (LEEDRules.js)\<close>

record part1_requirements =
  compliancePath :: bool
  pmvInRange :: bool
  ppdCompliant :: bool
  environmentalDataComplete :: bool

record part1_result =
  p1_part :: nat
  p1_compliant :: bool
  p1_gaps :: "string list"
  p1_nonCompliant :: "string list"
  p1_requirements :: part1_requirements

record part2_requirements =
  spacePercentageCompliant :: bool
  groupControlsPresent :: bool
  thermostatLocationsPresent :: bool

record part2_result =
  p2_part :: nat
  p2_compliant :: bool
  p2_gaps :: "string list"
  p2_nonCompliant :: "string list"
  p2_calculations :: "number option"
  p2_requirements :: part2_requirements

record ieqcr5_assessment = assessment +
  part1 :: "part1_result option"
  part2 :: "part2_result option"

definition environmentalParams :: "string list" where
  "environmentalParams = [''Operative Temperature Range'', ''Relative Humidity Range'',
     ''Air Speed'', ''Clothing Insulation'', ''Metabolic Rate'', ''Weather Data Source'']"

text \<open>\<open>assessPart1\<close> runs its checks in sequence on one result object; each definition
  below is one check.\<close>

definition part1_compliance_path :: "params \<Rightarrow> part1_result \<Rightarrow> part1_result" where
  "part1_compliance_path data result =
    (if \<not> truthy (data ''Compliance Path'')
     then result\<lparr>p1_gaps := p1_gaps result @ [''Compliance Path'']\<rparr>
     else result\<lparr>p1_requirements := (p1_requirements result)\<lparr>compliancePath := True\<rparr>\<rparr>)"

definition part1_pmv :: "host \<Rightarrow> params \<Rightarrow> part1_result \<Rightarrow> part1_result" where
  "part1_pmv h data result =
    (if data ''PMV'' = Undefined \<or> data ''PMV'' = Null
     then result\<lparr>p1_gaps := p1_gaps result @ [''PMV'']\<rparr>
     else let pmv = parseFloat h (data ''PMV'')
          in if num_ge pmv (Fin (- 0.5)) \<and> num_le pmv (Fin 0.5)
             then result\<lparr>p1_requirements := (p1_requirements result)\<lparr>pmvInRange := True\<rparr>\<rparr>
             else result\<lparr>p1_nonCompliant := p1_nonCompliant result @
                    [''PMV ('' @ ToString_number h pmv @
                     '') is outside acceptable range (-0.5 to 0.5)'']\<rparr>)"

definition part1_ppd :: "host \<Rightarrow> params \<Rightarrow> part1_result \<Rightarrow> part1_result" where
  "part1_ppd h data result =
    (if data ''PPD'' = Undefined \<or> data ''PPD'' = Null
     then result\<lparr>p1_gaps := p1_gaps result @ [''PPD'']\<rparr>
     else let ppd = parseFloat h (data ''PPD'')
          in if num_lt ppd (Fin 10)
             then result\<lparr>p1_requirements := (p1_requirements result)\<lparr>ppdCompliant := True\<rparr>\<rparr>
             else result\<lparr>p1_nonCompliant := p1_nonCompliant result @
                    [''PPD ('' @ ToString_number h ppd @ ''%) is not less than 10%'']\<rparr>)"

definition part1_environment :: "params \<Rightarrow> part1_result \<Rightarrow> part1_result" where
  "part1_environment data result =
    (let missingEnvData =
           filter (\<lambda>param. \<not> truthy (data param) \<or> data param = Str []) environmentalParams
     in if length missingEnvData > 0
        then result\<lparr>p1_gaps := p1_gaps result @ missingEnvData\<rparr>
        else result\<lparr>p1_requirements :=
               (p1_requirements result)\<lparr>environmentalDataComplete := True\<rparr>\<rparr>)"

definition part1_overall :: "part1_result \<Rightarrow> part1_result" where
  "part1_overall result =
    (if p1_gaps result = [] \<and> p1_nonCompliant result = [] \<and>
        (compliancePath (p1_requirements result) \<and> pmvInRange (p1_requirements result) \<and>
         ppdCompliant (p1_requirements result) \<and>
         environmentalDataComplete (p1_requirements result))
     then result\<lparr>p1_compliant := True\<rparr>
     else result)"

definition assessPart1 :: "host \<Rightarrow> params \<Rightarrow> part1_result" where
  "assessPart1 h data =
    part1_overall (part1_environment data (part1_ppd h data (part1_pmv h data
      (part1_compliance_path data
        \<lparr>p1_part = 1, p1_compliant = False, p1_gaps = [], p1_nonCompliant = [],
         p1_requirements = \<lparr>compliancePath = False, pmvInRange = False,
           ppdCompliant = False, environmentalDataComplete = False\<rparr>\<rparr>))))"

text \<open>\<open>assessPart2\<close> likewise. The space calculation runs inside \<^verbatim>\<open>try\<close>: an exception of
  the calculation module becomes a non-compliance message.\<close>

definition part2_spaces ::
  "host \<Rightarrow> calculation_module \<Rightarrow> params \<Rightarrow> part2_result \<Rightarrow> part2_result" where
  "part2_spaces h calculationModule data result =
    (if \<not> truthy (data ''Total Individual Spaces'') \<or> \<not> truthy (data ''Controlled Spaces'')
     then result\<lparr>p2_gaps := p2_gaps result @
            (if \<not> truthy (data ''Total Individual Spaces'')
             then [''Total Individual Spaces''] else []) @
            (if \<not> truthy (data ''Controlled Spaces'')
             then [''Controlled Spaces''] else [])\<rparr>
     else (case calculateSpacePercentage calculationModule
                  (data ''Total Individual Spaces'') (data ''Controlled Spaces'') of
             Inr percentage \<Rightarrow>
               let result = result\<lparr>p2_calculations := Some percentage\<rparr>
               in if num_gt percentage (Fin 50)
                  then result\<lparr>p2_requirements :=
                         (p2_requirements result)\<lparr>spacePercentageCompliant := True\<rparr>\<rparr>
                  else result\<lparr>p2_nonCompliant := p2_nonCompliant result @
                         [''Controlled spaces percentage ('' @ toFixed h 1 percentage @
                          ''%) is not greater than 50%'']\<rparr>
           | Inl error \<Rightarrow>
               result\<lparr>p2_nonCompliant := p2_nonCompliant result @
                 [''Space calculation error: '' @ message error]\<rparr>))"

definition part2_group_controls :: "params \<Rightarrow> part2_result \<Rightarrow> part2_result" where
  "part2_group_controls data result =
    (if \<not> truthy (data ''Group Controls'')
     then result\<lparr>p2_gaps := p2_gaps result @ [''Group Controls'']\<rparr>
     else result\<lparr>p2_requirements :=
            (p2_requirements result)\<lparr>groupControlsPresent := True\<rparr>\<rparr>)"

definition part2_thermostats :: "params \<Rightarrow> part2_result \<Rightarrow> part2_result" where
  "part2_thermostats data result =
    (if \<not> truthy (data ''Thermostat Locations'')
     then result\<lparr>p2_gaps := p2_gaps result @ [''Thermostat Locations'']\<rparr>
     else result\<lparr>p2_requirements :=
            (p2_requirements result)\<lparr>thermostatLocationsPresent := True\<rparr>\<rparr>)"

definition part2_overall :: "part2_result \<Rightarrow> part2_result" where
  "part2_overall result =
    (if p2_gaps result = [] \<and> p2_nonCompliant result = [] \<and>
        (spacePercentageCompliant (p2_requirements result) \<and>
         groupControlsPresent (p2_requirements result) \<and>
         thermostatLocationsPresent (p2_requirements result))
     then result\<lparr>p2_compliant := True\<rparr>
     else result)"

definition assessPart2 :: "host \<Rightarrow> calculation_module \<Rightarrow> params \<Rightarrow> part2_result" where
  "assessPart2 h calculationModule data =
    part2_overall (part2_thermostats data (part2_group_controls data
      (part2_spaces h calculationModule data
        \<lparr>p2_part = 2, p2_compliant = False, p2_gaps = [], p2_nonCompliant = [],
         p2_calculations = None,
         p2_requirements = \<lparr>spacePercentageCompliant = False,
           groupControlsPresent = False, thermostatLocationsPresent = False\<rparr>\<rparr>)))"

definition IEQCr5_assess ::
  "host \<Rightarrow> calculation_module \<Rightarrow> params \<Rightarrow> string \<Rightarrow> ieqcr5_assessment" where
  "IEQCr5_assess h calculationModule data units =
    (let result = \<lparr>creditId = ''IEQCr5'', creditName = ''Thermal Comfort'',
                   awarded = False, points = 0, maxPoints = 1, gaps = [], nonCompliant = [],
                   part1 = None, part2 = None\<rparr>;
         part1Result = assessPart1 h data;
         result = result\<lparr>part1 := Some part1Result\<rparr>;
         part2Result = assessPart2 h calculationModule data;
         result = result\<lparr>part2 := Some part2Result\<rparr>;
         result = result\<lparr>gaps := p1_gaps part1Result @ p2_gaps part2Result\<rparr>;
         result = result\<lparr>nonCompliant := p1_nonCompliant part1Result @ p2_nonCompliant part2Result\<rparr>
     in if p1_compliant part1Result \<and> p2_compliant part2Result \<and>
           gaps result = [] \<and> nonCompliant result = []
        then result\<lparr>awarded := True, points := 1\<rparr>
        else result)"

section \<open>The second engine: \<open>RuleEngine\<close> and \<open>CalculationEngine\<close> (ruleEngine.js)\<close>

record engine_impact =
  re_lcodp :: number
  re_lcgwp :: number
  re_impact :: number
  re_weightedAverage :: number
  re_totalCoolingCapacity :: number
  re_unitSystem :: string

text \<open>The result object that \<open>evaluateCredit\<close> creates and hands to the evaluator of the
  credit. An empty \<open>calculations\<close> object is \<open>None\<close>.\<close>

record engine_result =
  re_creditId :: string
  re_creditName :: string
  re_maxPoints :: nat
  awardedPoints :: nat
  status :: string
  re_gaps :: "string list"
  re_nonCompliant :: "string list"
  re_calculations :: "engine_impact option"
  re_details :: "string list"

record engine_check =
  ck_compliant :: bool
  ck_gaps :: "string list"
  ck_nonCompliant :: "string list"
  ck_calculations :: "engine_impact option"

definition RuleEngine_calculateRefrigerantImpact :: "host \<Rightarrow> params \<Rightarrow> string \<Rightarrow> engine_impact" where
  "RuleEngine_calculateRefrigerantImpact h data unitSystem =
    (let gwp = parseFloat h (data ''GWP'');
         odp = num_or (parseFloat h (data ''ODP'')) (Fin 0);
         charge = parseFloat h (data ''Refrigerant Charge'');
         leakageRate = num_div (parseFloat h (data ''Leakage Rate'')) (Fin 100);
         life = parseFloat h (data ''Equipment Life'');
         coolingCapacity = parseFloat h (data ''Equipment Cooling Capacity'');
         quantity = parseFloat h (data ''Equipment Quantity'');
         mr = Fin 1;
         lcodp = num_div (num_mul (num_mul odp (num_add (num_mul leakageRate life) mr)) charge) life;
         lcgwp = num_div (num_mul (num_mul gwp (num_add (num_mul leakageRate life) mr)) charge) life;
         impact = num_add lcgwp (num_mul lcodp (Fin (10 ^ 5)));
         totalCoolingCapacity = num_mul coolingCapacity quantity;
         weightedAverage = num_div (num_mul impact totalCoolingCapacity) totalCoolingCapacity
     in \<lparr>re_lcodp = lcodp, re_lcgwp = lcgwp, re_impact = impact,
         re_weightedAverage = weightedAverage,
         re_totalCoolingCapacity = totalCoolingCapacity, re_unitSystem = unitSystem\<rparr>)"

definition checkEACr6Option1 :: "host \<Rightarrow> params \<Rightarrow> engine_check" where
  "checkEACr6Option1 h data =
    (let gaps = []; compliant = True;
         (gaps, compliant) =
           (if \<not> truthy (data ''Refrigerant Used'')
            then (gaps @ [''Refrigerant Used''], False) else (gaps, compliant));
         compliant =
           (if data ''ODP'' \<noteq> Num (Fin 0) \<and> data ''ODP'' \<noteq> Str ''0'' then False else compliant);
         compliant =
           (if \<not> truthy (data ''GWP'') \<or> num_ge (parseFloat h (data ''GWP'')) (Fin 50)
            then False else compliant);
         (gaps, compliant) =
           (if \<not> truthy (data ''Confirmation Statement'')
            then (gaps @ [''Confirmation Statement''], False) else (gaps, compliant))
     in \<lparr>ck_compliant = compliant, ck_gaps = gaps, ck_nonCompliant = [],
         ck_calculations = None\<rparr>)"

definition engine_requiredParams :: "string list" where
  "engine_requiredParams = [''GWP'', ''Refrigerant Charge'', ''Leakage Rate'', ''Equipment Life'',
     ''Equipment Cooling Capacity'', ''Equipment Quantity'']"

definition checkEACr6Option2 :: "host \<Rightarrow> params \<Rightarrow> string \<Rightarrow> engine_check" where
  "checkEACr6Option2 h data unitSystem =
    (let gaps = filter (\<lambda>param. \<not> truthy (data param)) engine_requiredParams;
         nonCompliant = []
     in if length gaps > 0
        then \<lparr>ck_compliant = False, ck_gaps = gaps, ck_nonCompliant = nonCompliant,
               ck_calculations = None\<rparr>
        else let calculations = RuleEngine_calculateRefrigerantImpact h data unitSystem;
                 weightedAverage = re_weightedAverage calculations
             in if num_le weightedAverage (if unitSystem = ''SI'' then Fin 13 else Fin 100)
                then \<lparr>ck_compliant = True, ck_gaps = [], ck_nonCompliant = [],
                       ck_calculations = Some calculations\<rparr>
                else \<lparr>ck_compliant = False, ck_gaps = [],
                       ck_nonCompliant = nonCompliant @
                         [''Weighted average ('' @ toFixed h 2 weightedAverage @
                          '') exceeds threshold ('' @
                          (if unitSystem = ''SI'' then ''13'' else ''100'') @ '')''],
                       ck_calculations = Some calculations\<rparr>)"

definition evaluateEACr6 :: "host \<Rightarrow> params \<Rightarrow> string \<Rightarrow> engine_result \<Rightarrow> engine_result" where
  "evaluateEACr6 h data unitSystem result =
    (let option1Result = checkEACr6Option1 h data
     in if ck_compliant option1Result
        then result\<lparr>awardedPoints := 1, status := ''compliant'',
               re_details := re_details result @
                 [''Option 1: No Refrigerants or Low-Impact Refrigerants'']\<rparr>
        else let result = result\<lparr>re_gaps := re_gaps result @ ck_gaps option1Result\<rparr>;
                 option2Result = checkEACr6Option2 h data unitSystem
             in if ck_compliant option2Result
                then result\<lparr>awardedPoints := 1, status := ''compliant'',
                       re_details := re_details result @
                         [''Option 2: Calculation of Refrigerant Impact''],
                       re_calculations := ck_calculations option2Result\<rparr>
                else result\<lparr>status := ''non_compliant'',
                       re_nonCompliant := re_nonCompliant result @ ck_nonCompliant option2Result,
                       re_gaps := re_gaps result @ ck_gaps option2Result\<rparr>)"

text \<open>\<open>evaluateCredit(''EACr6'', extractedData, unitSystem)\<close>: the fresh result, then the
  evaluator of the credit, which does not throw.\<close>

definition evaluateCredit_EACr6 :: "host \<Rightarrow> params \<Rightarrow> string \<Rightarrow> engine_result" where
  "evaluateCredit_EACr6 h extractedData unitSystem =
    evaluateEACr6 h extractedData unitSystem
      \<lparr>re_creditId = ''EACr6'', re_creditName = ''Enhanced Refrigerant Management'',
       re_maxPoints = 1, awardedPoints = 0, status = ''pending'', re_gaps = [],
       re_nonCompliant = [], re_calculations = None, re_details = []\<rparr>"

text \<open>\<open>CalculationEngine.calculateThermalControlPercentage\<close> returns \<^verbatim>\<open>null\<close> when an
  argument is falsy; the division converts its operands to numbers.\<close>

definition calculateThermalControlPercentage :: "host \<Rightarrow> jsval \<Rightarrow> jsval \<Rightarrow> jsval" where
  "calculateThermalControlPercentage h totalSpaces controlledSpaces =
    (if \<not> truthy totalSpaces \<or> \<not> truthy controlledSpaces then Null
     else Num (num_mul (num_div (ToNumber h controlledSpaces) (ToNumber h totalSpaces)) (Fin 100)))"

section \<open>The multi-document consolidator: \<open>LEEDDataConsolidator\<close> (LEEDRules.js)\<close>

text \<open>
  An object used as a dictionary is an association list in the order in which its keys
  were first written, which is the order \<^verbatim>\<open>Object.entries\<close> visits them (keys that look
  like array indices apart). \<open>AList.update\<close> overwrites a key in place or appends it.
  The association list holds the object's own properties. \<open>get\<close> reads an own property;
  a missing one reads as \<open>Undefined\<close>. It gives the inputs of the rule sets, which read
  fixed keys, none of them the name of an inherited member.
  The documents are given as the list of entries that \<^verbatim>\<open>Object.entries(multiDocData)\<close>
  yields, in that order.
\<close>

definition get :: "(string \<times> jsval) list \<Rightarrow> string \<Rightarrow> jsval" where
  "get obj k = (case map_of obj k of None \<Rightarrow> Undefined | Some v \<Rightarrow> v)"

text \<open>
  The dictionaries of the consolidator are created as \<^verbatim>\<open>{}\<close> and read with \<^verbatim>\<open>obj[key]\<close>,
  so a key that is not an own property is looked up in \<^verbatim>\<open>Object.prototype\<close>.
  \<open>Object_prototype_members\<close> lists the members ECMAScript puts there; \<open>lookup obj k\<close> is
  \<^verbatim>\<open>obj[k]\<close>: the own property, else the inherited member, else \<open>Undefined\<close>.
\<close>

definition Object_prototype_members :: "string list" where
  "Object_prototype_members =
    [''constructor'', ''__defineGetter__'', ''__defineSetter__'', ''hasOwnProperty'',
     ''__lookupGetter__'', ''__lookupSetter__'', ''isPrototypeOf'', ''propertyIsEnumerable'',
     ''toString'', ''valueOf'', ''__proto__'', ''toLocaleString'']"

definition inherited :: "string \<Rightarrow> bool" where
  "inherited k \<longleftrightarrow> k \<in> set Object_prototype_members"

definition lookup :: "(string \<times> jsval) list \<Rightarrow> string \<Rightarrow> jsval" where
  "lookup obj k =
    (case map_of obj k of
       Some v \<Rightarrow> v
     | None \<Rightarrow> if inherited k then Member k else Undefined)"

text \<open>\<^verbatim>\<open>a === b\<close>.\<close>

definition strict_eq :: "jsval \<Rightarrow> jsval \<Rightarrow> bool" where
  "strict_eq a b = (a = b \<and> a \<noteq> Num NaN)"

text \<open>One candidate of a conflict. The document label is a value, because the first
  candidate's label is read back from \<open>dataSources\<close>.\<close>

record candidate =
  document :: jsval
  cvalue :: jsval

text \<open>What one document holds for one credit: \<open>Parameters\<close> and \<open>Values\<close>, either of
  which may be missing (or falsy). \<open>Values\<close> gives what \<^verbatim>\<open>values[parameter]\<close> reads;
  the default \<^verbatim>\<open>{}\<close> reads as \<open>lookup []\<close>. A document is the function from a credit to
  what \<^verbatim>\<open>docData[creditId]\<close> reads there, \<open>None\<close> when that is falsy.\<close>

record credit_data =
  Parameters :: "string list option"
  Values :: "params option"

type_synonym doc_data = "string \<Rightarrow> credit_data option"

definition credit_values :: "credit_data \<Rightarrow> params" where
  "credit_values creditData = (case Values creditData of None \<Rightarrow> lookup [] | Some vs \<Rightarrow> vs)"

record consolidation_state =
  consolidatedData :: "(string \<times> jsval) list"
  dataSources :: "(string \<times> jsval) list"
  st_conflicts :: "(string \<times> candidate list) list"
  st_processingLog :: "string list"

text \<open>
  The body of \<^verbatim>\<open>parameters.forEach\<close> for one parameter of one document.
  \<^verbatim>\<open>conflicts[parameter]\<close> is the own list of candidates, else the inherited member, else
  undefined. An inherited member is truthy, so no list is created for it, and it has no
  \<^verbatim>\<open>push\<close>, so the call \<^verbatim>\<open>conflicts[parameter].push(...)\<close> throws.
\<close>

definition record_parameter ::
  "string \<Rightarrow> params \<Rightarrow> string \<Rightarrow> consolidation_state \<Rightarrow> error + consolidation_state" where
  "record_parameter docName values parameter st =
    (let paramValue = values parameter
     in if paramValue \<noteq> Undefined \<and> paramValue \<noteq> Null \<and> paramValue \<noteq> Str [] then
          (if lookup (consolidatedData st) parameter \<noteq> Undefined then
             (let st = (if map_of (st_conflicts st) parameter = None \<and> \<not> inherited parameter
                        then st\<lparr>st_conflicts := AList.update parameter
                               [\<lparr>document = lookup (dataSources st) parameter,
                                 cvalue = lookup (consolidatedData st) parameter\<rparr>]
                               (st_conflicts st)\<rparr>
                        else st)
              in case map_of (st_conflicts st) parameter of
                   None \<Rightarrow> Inl (TypeError ''conflicts[parameter].push is not a function'')
                 | Some own \<Rightarrow>
                     Inr (st\<lparr>st_conflicts := AList.map_entry parameter
                            (\<lambda>conflictList. conflictList @
                               [\<lparr>document = Str docName, cvalue = paramValue\<rparr>])
                            (st_conflicts st)\<rparr>))
           else Inr (st\<lparr>consolidatedData :=
                           AList.update parameter paramValue (consolidatedData st),
                         dataSources := AList.update parameter (Str docName) (dataSources st)\<rparr>))
        else Inr st)"

text \<open>\<^verbatim>\<open>parameters.forEach\<close>: an exception ends the loop.\<close>

fun record_each ::
  "string \<Rightarrow> params \<Rightarrow> string list \<Rightarrow> consolidation_state \<Rightarrow> error + consolidation_state" where
  "record_each docName values [] st = Inr st"
| "record_each docName values (parameter # rest) st =
    (case record_parameter docName values parameter st of
       Inl e \<Rightarrow> Inl e
     | Inr st' \<Rightarrow> record_each docName values rest st')"

text \<open>The body of \<^verbatim>\<open>Object.entries(multiDocData).forEach\<close> for one document.\<close>

definition process_document ::
  "string \<Rightarrow> string \<times> doc_data \<Rightarrow> consolidation_state \<Rightarrow> error + consolidation_state" where
  "process_document credit doc st =
    (case doc of (docName, docData) \<Rightarrow>
       (case docData credit of
          None \<Rightarrow> Inr (st\<lparr>st_processingLog := st_processingLog st @
                    [''Document '' @ docName @ '' does not contain '' @ credit @ '' data'']\<rparr>)
        | Some creditData \<Rightarrow>
            let parameters = (case Parameters creditData of None \<Rightarrow> [] | Some ps \<Rightarrow> ps);
                values = credit_values creditData
            in record_each docName values parameters st))"

fun process_each ::
  "string \<Rightarrow> (string \<times> doc_data) list \<Rightarrow> consolidation_state \<Rightarrow>
   error + consolidation_state" where
  "process_each credit [] st = Inr st"
| "process_each credit (doc # rest) st =
    (case process_document credit doc st of
       Inl e \<Rightarrow> Inl e
     | Inr st' \<Rightarrow> process_each credit rest st')"

definition extract_parameters ::
  "(string \<times> doc_data) list \<Rightarrow> string \<Rightarrow> error + consolidation_state" where
  "extract_parameters multiDocData credit =
    process_each credit multiDocData
      \<lparr>consolidatedData = [], dataSources = [], st_conflicts = [], st_processingLog = []\<rparr>"

subsection \<open>Resolution\<close>

definition priorityRules :: "(string \<times> number) list" where
  "priorityRules = [(''manufacturer_datasheet'', Fin 10), (''equipment_schedule'', Fin 8),
     (''specification'', Fin 7), (''calculation'', Fin 6), (''drawing'', Fin 5),
     (''narrative'', Fin 4), (''default'', Fin 1)]"

text \<open>Reading a property of \<^verbatim>\<open>undefined\<close>, or calling \<^verbatim>\<open>toLowerCase\<close> on a value that is
  not a string, throws.\<close>

definition getDocumentPriority ::
  "host \<Rightarrow> jsval \<Rightarrow> (string \<times> number) list \<Rightarrow> error + number" where
  "getDocumentPriority h docName priorities =
    (case docName of
       Str name \<Rightarrow>
         let lowerDocName = toLowerCase h name
         in Inr (case find (\<lambda>(pattern, priority).
                              str_includes lowerDocName (toLowerCase h pattern)) priorities of
                   Some (pattern, priority) \<Rightarrow> priority
                 | None \<Rightarrow>
                     (case map_of priorities ''default'' of
                        None \<Rightarrow> Fin 1
                      | Some d \<Rightarrow> num_or d (Fin 1)))
     | _ \<Rightarrow> Inl (TypeError ''docName.toLowerCase is not a function''))"

fun priority_scan ::
  "host \<Rightarrow> (string \<times> number) list \<Rightarrow> candidate list \<Rightarrow> candidate \<times> number \<Rightarrow>
   error + candidate \<times> number" where
  "priority_scan h priorities [] best = Inr best"
| "priority_scan h priorities (conflict # rest) best =
    (case getDocumentPriority h (document conflict) priorities of
       Inl e \<Rightarrow> Inl e
     | Inr priority \<Rightarrow>
         priority_scan h priorities rest
           (if num_gt priority (snd best) then (conflict, priority) else best))"

definition resolveBypriority ::
  "host \<Rightarrow> candidate list \<Rightarrow> (string \<times> number) list \<Rightarrow> error + jsval \<times> jsval \<times> number" where
  "resolveBypriority h conflictList customPriorities =
    (let priorities = fold (\<lambda>(k, v). AList.update k v) customPriorities priorityRules
     in case conflictList of
          [] \<Rightarrow> Inl (TypeError ''Cannot read properties of undefined (reading document)'')
        | bestConflict # rest \<Rightarrow>
            (case getDocumentPriority h (document bestConflict) priorities of
               Inl e \<Rightarrow> Inl e
             | Inr bestPriority \<Rightarrow>
                 (case priority_scan h priorities conflictList (bestConflict, bestPriority) of
                    Inl e \<Rightarrow> Inl e
                  | Inr (best, priority) \<Rightarrow> Inr (cvalue best, document best, priority))))"

text \<open>\<open>manualResolutions p = Some d\<close>: the caller's map has a truthy entry for \<open>p\<close> whose
  \<open>document\<close> property reads \<open>d\<close> (\<open>Undefined\<close> when the entry has none). \<open>None\<close>: no entry,
  or a falsy one.\<close>

record resolve_options =
  customPriorities :: "(string \<times> number) list"
  manualResolutions :: "string \<Rightarrow> jsval option"
  opt_dataSources :: "(string \<times> jsval) list"

record resolution_entry =
  log_parameter :: string
  log_conflicts :: "candidate list"
  resolvedValue :: jsval
  resolvedSource :: jsval
  log_method :: jsval

record resolved =
  resolved_data :: "(string \<times> jsval) list"
  resolved_sources :: "(string \<times> jsval) list"
  resolved_log :: "resolution_entry list"

text \<open>The \<^verbatim>\<open>switch\<close>: the three variables start undefined and a branch may assign them.\<close>

definition resolve_switch ::
  "host \<Rightarrow> (string \<times> jsval) list \<Rightarrow> string \<Rightarrow> resolve_options \<Rightarrow> string \<Rightarrow>
   candidate list \<Rightarrow> error + jsval \<times> jsval \<times> jsval" where
  "resolve_switch h data strategy options param conflictList =
    (if strategy = ''priority'' then
       (case resolveBypriority h conflictList (customPriorities options) of
          Inl e \<Rightarrow> Inl e
        | Inr (v, source, priority) \<Rightarrow> Inr (v, source, Str ''priority-based''))
     else if strategy = ''latest'' then
       (if conflictList = []
        then Inl (TypeError ''Cannot read properties of undefined (reading value)'')
        else let latestConflict = last conflictList
             in Inr (cvalue latestConflict, document latestConflict, Str ''latest-document''))
     else if strategy = ''manual'' then
       (case manualResolutions options param of
          Some manualChoice_document \<Rightarrow>
            (case find (\<lambda>c. strict_eq (document c) manualChoice_document) conflictList of
               Some chosenConflict \<Rightarrow>
                 Inr (cvalue chosenConflict, document chosenConflict, Str ''manual-selection'')
             | None \<Rightarrow> Inr (Undefined, Undefined, Undefined))
        | None \<Rightarrow> Inr (Undefined, Undefined, Undefined))
     else Inr (lookup data param, lookup (opt_dataSources options) param,
               Str ''first-occurrence''))"

text \<open>The body of \<^verbatim>\<open>Object.entries(conflicts).forEach\<close> for one conflict.\<close>

definition resolve_conflict ::
  "host \<Rightarrow> (string \<times> jsval) list \<Rightarrow> string \<Rightarrow> resolve_options \<Rightarrow>
   string \<times> candidate list \<Rightarrow> resolved \<Rightarrow> error + resolved" where
  "resolve_conflict h data strategy options entry acc =
    (case entry of (param, conflictList) \<Rightarrow>
       (case resolve_switch h data strategy options param conflictList of
          Inl e \<Rightarrow> Inl e
        | Inr (v, source, method) \<Rightarrow>
            Inr (if v \<noteq> Undefined
                 then acc\<lparr>resolved_data := AList.update param v (resolved_data acc),
                          resolved_sources := AList.update param source (resolved_sources acc),
                          resolved_log := resolved_log acc @
                            [\<lparr>log_parameter = param, log_conflicts = conflictList,
                              resolvedValue = v, resolvedSource = source,
                              log_method = method\<rparr>]\<rparr>
                 else acc)))"

fun resolve_each ::
  "host \<Rightarrow> (string \<times> jsval) list \<Rightarrow> string \<Rightarrow> resolve_options \<Rightarrow>
   (string \<times> candidate list) list \<Rightarrow> resolved \<Rightarrow> error + resolved" where
  "resolve_each h data strategy options [] acc = Inr acc"
| "resolve_each h data strategy options (entry # rest) acc =
    (case resolve_conflict h data strategy options entry acc of
       Inl e \<Rightarrow> Inl e
     | Inr acc' \<Rightarrow> resolve_each h data strategy options rest acc')"

definition resolveConflicts ::
  "host \<Rightarrow> (string \<times> jsval) list \<Rightarrow> (string \<times> candidate list) list \<Rightarrow> string \<Rightarrow>
   resolve_options \<Rightarrow> error + resolved" where
  "resolveConflicts h data conflicts strategy options =
    resolve_each h data strategy options conflicts
      \<lparr>resolved_data = data, resolved_sources = opt_dataSources options, resolved_log = []\<rparr>"

record consolidate_options =
  conflictResolution :: string
  co_customPriorities :: "(string \<times> number) list"
  co_manualResolutions :: "string \<Rightarrow> jsval option"

record processing_info =
  documentsProcessed :: nat
  parametersFound :: nat
  conflictsDetected :: nat
  conflictsResolved :: nat

text \<open>The object \<open>consolidateData\<close> returns: \<open>data\<close>, \<open>sources\<close>, \<open>conflicts\<close>,
  \<open>resolutionLog\<close>, \<open>processingInfo\<close> and \<open>processingLog\<close>.\<close>

record consolidated =
  c_data :: "(string \<times> jsval) list"
  c_sources :: "(string \<times> jsval) list"
  c_conflicts :: "(string \<times> candidate list) list"
  c_resolutionLog :: "resolution_entry list"
  c_processingInfo :: processing_info
  c_processingLog :: "string list"

definition consolidateData ::
  "host \<Rightarrow> (string \<times> doc_data) list \<Rightarrow> string \<Rightarrow> consolidate_options \<Rightarrow> error + consolidated" where
  "consolidateData h multiDocData credit options =
    (case extract_parameters multiDocData credit of
       Inl e \<Rightarrow> Inl e
     | Inr st \<Rightarrow>
         (case resolveConflicts h (consolidatedData st) (st_conflicts st)
                 (conflictResolution options)
                 \<lparr>customPriorities = co_customPriorities options,
                  manualResolutions = co_manualResolutions options,
                  opt_dataSources = dataSources st\<rparr> of
            Inl e \<Rightarrow> Inl e
          | Inr resolvedData \<Rightarrow>
              Inr \<lparr>c_data = resolved_data resolvedData,
                   c_sources = resolved_sources resolvedData,
                   c_conflicts = st_conflicts st,
                   c_resolutionLog = resolved_log resolvedData,
                   c_processingInfo =
                     \<lparr>documentsProcessed = length multiDocData,
                      parametersFound = length (resolved_data resolvedData),
                      conflictsDetected = length (st_conflicts st),
                      conflictsResolved = length (resolved_log resolvedData)\<rparr>,
                   c_processingLog = st_processingLog st\<rparr>))"

subsection \<open>The candidates of a parameter, read off the documents\<close>

text \<open>
  The consolidator's description of its own work, for comparison with the loop above:
  a document supplies a parameter when it declares the parameter and gives it a non-empty
  value; \<open>arrivals\<close> lists what the documents supply for a parameter, in processing order
  (once for every time the document declares it). \<open>names_inherited_member\<close> holds when
  some document supplies a parameter named like a member that every object inherits.
\<close>

definition non_empty :: "jsval \<Rightarrow> bool" where
  "non_empty v \<longleftrightarrow> v \<noteq> Undefined \<and> v \<noteq> Null \<and> v \<noteq> Str []"

definition doc_parameters :: "string \<Rightarrow> doc_data \<Rightarrow> string list" where
  "doc_parameters credit docData =
    (case docData credit of
       None \<Rightarrow> []
     | Some creditData \<Rightarrow> (case Parameters creditData of None \<Rightarrow> [] | Some ps \<Rightarrow> ps))"

definition doc_value :: "string \<Rightarrow> string \<Rightarrow> doc_data \<Rightarrow> jsval" where
  "doc_value credit p docData =
    (case docData credit of
       None \<Rightarrow> Undefined
     | Some creditData \<Rightarrow> credit_values creditData p)"

definition supplies :: "string \<Rightarrow> string \<Rightarrow> doc_data \<Rightarrow> bool" where
  "supplies credit p docData \<longleftrightarrow>
    p \<in> set (doc_parameters credit docData) \<and> non_empty (doc_value credit p docData)"

definition supplied :: "string \<Rightarrow> string \<Rightarrow> string \<times> doc_data \<Rightarrow> candidate list" where
  "supplied credit p doc =
    (if non_empty (doc_value credit p (snd doc))
     then map (\<lambda>q. \<lparr>document = Str (fst doc), cvalue = doc_value credit p (snd doc)\<rparr>)
            (filter (\<lambda>q. q = p) (doc_parameters credit (snd doc)))
     else [])"

definition arrivals :: "string \<Rightarrow> (string \<times> doc_data) list \<Rightarrow> string \<Rightarrow> candidate list" where
  "arrivals credit docs p = concat (map (supplied credit p) docs)"

definition names_inherited_member :: "string \<Rightarrow> (string \<times> doc_data) list \<Rightarrow> bool" where
  "names_inherited_member credit docs \<longleftrightarrow>
    (\<exists>doc \<in> set docs. \<exists>p \<in> set (doc_parameters credit (snd doc)).
       inherited p \<and> non_empty (doc_value credit p (snd doc)))"

text \<open>What the loop maintains: \<open>A p\<close> lists the candidates that have arrived for \<open>p\<close>,
  none under the name of an inherited member; the first of them is what
  \<open>consolidatedData\<close> and \<open>dataSources\<close> hold, and from the second arrival on the whole
  list is the conflict entry.\<close>

definition tracks :: "consolidation_state \<Rightarrow> (string \<Rightarrow> candidate list) \<Rightarrow> bool" where
  "tracks st A \<longleftrightarrow>
     distinct (map fst (st_conflicts st)) \<and>
     (\<forall>p. (\<forall>c \<in> set (A p). cvalue c \<noteq> Undefined \<and> (\<exists>d. document c = Str d)) \<and>
          (inherited p \<longrightarrow> A p = []) \<and>
          map_of (consolidatedData st) p =
            (case A p of [] \<Rightarrow> None | c # cs \<Rightarrow> Some (cvalue c)) \<and>
          map_of (dataSources st) p =
            (case A p of [] \<Rightarrow> None | c # cs \<Rightarrow> Some (document c)) \<and>
          map_of (st_conflicts st) p = (if 2 \<le> length (A p) then Some (A p) else None))"

section \<open>A host for running the definitions\<close>

text \<open>
  \<open>decimal_host\<close> reads and prints plain decimal numerals: an optional sign, digits and an
  optional fraction, without exponent. It serves to evaluate the definitions at concrete
  inputs; the general theorems quantify over every host.
\<close>

definition is_digit :: "char \<Rightarrow> bool" where
  "is_digit c = (48 \<le> (of_char c :: nat) \<and> (of_char c :: nat) \<le> 57)"

definition digits_value :: "string \<Rightarrow> nat" where
  "digits_value ds = foldl (\<lambda>n c. 10 * n + (of_char c - 48)) 0 ds"

definition read_sign :: "string \<Rightarrow> bool \<times> string" where
  "read_sign s =
    (case s of
       [] \<Rightarrow> (False, s)
     | c # t \<Rightarrow> if c = CHR ''-'' then (True, t) else if c = CHR ''+'' then (False, t) else (False, s))"

definition read_fraction :: "string \<Rightarrow> string \<times> string" where
  "read_fraction s =
    (case s of
       [] \<Rightarrow> ([], s)
     | c # t \<Rightarrow> if c = CHR ''.'' then (takeWhile is_digit t, dropWhile is_digit t) else ([], s))"

definition read_decimal :: "string \<Rightarrow> (real \<times> string) option" where
  "read_decimal s =
    (case read_sign s of (negative, s1) \<Rightarrow>
       (case read_fraction (dropWhile is_digit s1) of (fp, rest) \<Rightarrow>
          let ip = takeWhile is_digit s1;
              v = real (digits_value ip) + real (digits_value fp) / 10 ^ length fp
          in if ip = [] \<and> fp = [] then None
             else Some (if negative then - v else v, rest)))"

definition trim_start :: "string \<Rightarrow> string" where
  "trim_start s = dropWhile (\<lambda>c. c = CHR '' '') s"

definition trim :: "string \<Rightarrow> string" where
  "trim s = rev (trim_start (rev (trim_start s)))"

fun show_nat :: "nat \<Rightarrow> string" where
  "show_nat n =
    (if n < 10 then [char_of (48 + n)] else show_nat (n div 10) @ [char_of (48 + n mod 10)])"

definition show_fixed :: "nat \<Rightarrow> real \<Rightarrow> string" where
  "show_fixed d r =
    (let n = nat \<lfloor>\<bar>r\<bar> * 10 ^ d + 1 / 2\<rfloor>;
         fp = show_nat (n mod 10 ^ d)
     in (if r < 0 then ''-'' else []) @ show_nat (n div 10 ^ d) @
        (if d = 0 then [] else ''.'' @ replicate (d - length fp) (CHR ''0'') @ fp))"

definition show_number :: "(real \<Rightarrow> string) \<Rightarrow> number \<Rightarrow> string" where
  "show_number f x =
    (case x of NaN \<Rightarrow> ''NaN'' | NegInf \<Rightarrow> ''-Infinity'' | PosInf \<Rightarrow> ''Infinity'' | Fin r \<Rightarrow> f r)"

definition strip_zeros :: "string \<Rightarrow> string" where
  "strip_zeros s =
    (let t = rev (dropWhile (\<lambda>c. c = CHR ''0'') (rev s))
     in if t \<noteq> [] \<and> last t = CHR ''.'' then butlast t else t)"

definition decimal_host :: host where
  "decimal_host =
    \<lparr>parseFloat_string =
       (\<lambda>s. case read_decimal (trim_start s) of None \<Rightarrow> NaN | Some (v, rest) \<Rightarrow> Fin v),
     ToNumber_string =
       (\<lambda>s. if trim s = [] then Fin 0
            else (case read_decimal (trim s) of
                    Some (v, rest) \<Rightarrow> if rest = [] then Fin v else NaN
                  | None \<Rightarrow> NaN)),
     toFixed = (\<lambda>d. show_number (show_fixed d)),
     ToString_number = show_number (\<lambda>r. strip_zeros (show_fixed 6 r)),
     toLowerCase =
       map (\<lambda>c. if 65 \<le> (of_char c :: nat) \<and> (of_char c :: nat) \<le> 90
                then char_of (of_char c + (32 :: nat)) else c)\<rparr>"

subsection \<open>Sample inputs\<close>

text \<open>Every Option-1 condition met, with GWP just below the limit.\<close>

definition boundary_params :: params where
  "boundary_params = get [(''Refrigerant Used'', Str ''R-1234ze(E)''), (''ODP'', Num (Fin 0)),
     (''GWP'', Num (Fin 49.999)), (''Confirmation Statement'', Str ''Yes'')]"


text \<open>An R-32 system without a confirmation statement whose calculated impact is 81.\<close>

definition r32_params :: params where
  "r32_params = get [(''Refrigerant Used'', Str ''R-32''), (''ODP'', Num (Fin 0)),
     (''GWP'', Num (Fin 675)), (''Refrigerant Charge'', Num (Fin 1)),
     (''Leakage Rate'', Num (Fin 2)), (''Equipment Life'', Num (Fin 10)),
     (''Equipment Cooling Capacity'', Num (Fin 5)), (''Equipment Quantity'', Num (Fin 1))]"


text \<open>The data of the calculation path alone, under the keys \<open>EACr6RuleSet\<close> reads.\<close>

definition option2_params :: params where
  "option2_params = get [(''GWP'', Num (Fin 2088)), (''ODP'', Num (Fin 0)),
     (''Refrigerant charge'', Num (Fin 8)), (''Leakage Rate'', Num (Fin 15)),
     (''Equipment Life'', Num (Fin 15)), (''Equipment Cooling Capacity'', Num (Fin 25)),
     (''Equipment Quantity'', Num (Fin 10))]"

text \<open>A calculation module whose refrigerant calculation throws.\<close>

definition throwing_module :: calculation_module where
  "throwing_module =
    \<lparr>calculateRefrigerantImpact = (\<lambda>data units. Inl (Error ''Equipment data unavailable'')),
     calculateSpacePercentage = CalculationModule_calculateSpacePercentage decimal_host\<rparr>"

text \<open>Space counts with the total given as the string \<^verbatim>\<open>"0"\<close>.\<close>

definition zero_spaces_params :: params where
  "zero_spaces_params = get [(''Total Individual Spaces'', Str ''0''),
     (''Controlled Spaces'', Num (Fin 85))]"

text \<open>An object without any parameter.\<close>

definition no_params :: params where
  "no_params = (\<lambda>k. Undefined)"

text \<open>Every Option-1 condition met at the boundary, with the confirmation statement
  given as the number 0.\<close>

definition confirmation_zero_params :: params where
  "confirmation_zero_params = get [(''Refrigerant Used'', Str ''R-1234ze(E)''),
     (''ODP'', Num (Fin 0)), (''GWP'', Num (Fin 49.999)),
     (''Confirmation Statement'', Num (Fin 0))]"

text \<open>Documents that supply GWP for EACr6 and nothing else, and consolidation options.\<close>

definition gwp_data :: "real \<Rightarrow> doc_data" where
  "gwp_data v =
    (\<lambda>credit. if credit = ''EACr6''
              then Some \<lparr>Parameters = Some [''GWP''],
                         Values = Some (lookup [(''GWP'', Num (Fin v))])\<rparr>
              else None)"



definition differing_documents :: "(string \<times> doc_data) list" where
  "differing_documents =
    [(''hvac_schedule'', gwp_data 675), (''commissioning_report'', gwp_data 700)]"

definition agreeing_documents :: "(string \<times> doc_data) list" where
  "agreeing_documents =
    [(''equipment_schedule'', gwp_data 675), (''manufacturer_datasheet'', gwp_data 675)]"

definition latest_options :: consolidate_options where
  "latest_options = \<lparr>conflictResolution = ''latest'', co_customPriorities = [],
     co_manualResolutions = (\<lambda>p. None)\<rparr>"

definition manual_options :: consolidate_options where
  "manual_options = \<lparr>conflictResolution = ''manual'', co_customPriorities = [],
     co_manualResolutions =
       (\<lambda>p. if p = ''GWP'' then Some (Str ''mechanical_drawing'') else None)\<rparr>"

definition manual_options_without_choice :: consolidate_options where
  "manual_options_without_choice = \<lparr>conflictResolution = ''manual'',
     co_customPriorities = [], co_manualResolutions = (\<lambda>p. None)\<rparr>"

section \<open>Properties of the refrigerant rule set\<close>

subsection \<open>The two options, step by step\<close>

lemma option2_calculate_gaps [simp]:
  "o2_gaps (option2_calculate h cm data units result) = o2_gaps result"
  by (simp add: option2_calculate_def Let_def split: sum.splits)

lemma option2_calculate_compliant:
  "\<not> o2_compliant result \<Longrightarrow> o2_nonCompliant result = [] \<Longrightarrow>
   o2_compliant (option2_calculate h cm data units result) \<Longrightarrow>
   o2_nonCompliant (option2_calculate h cm data units result) = [] \<and> o2_gaps result = []"
  by (cases "calculateRefrigerantImpact cm data units")
     (auto simp: option2_calculate_def Let_def split: if_splits)

lemma option2_calculate_error:
  "o2_gaps result = [] \<Longrightarrow> calculateRefrigerantImpact cm data units = Inl e \<Longrightarrow>
   option2_calculate h cm data units result =
     result\<lparr>o2_nonCompliant := o2_nonCompliant result @ [''Calculation error: '' @ message e]\<rparr>"
  by (simp add: option2_calculate_def)

lemma refrigeration_gaps_cases:
  "(\<exists>g. refrigeration_gaps h data = Inr g \<and>
        set g \<subseteq> {''Leakage Test Results'', ''Greenchill Certification Status''}) \<or>
   (\<exists>m. refrigeration_gaps h data = Inl (TypeError m))"
  by (cases "data ''Equipment Type''") (auto simp: refrigeration_gaps_def)

lemma assessOption2_Inr:
  "refrigeration_gaps h data = Inr g \<Longrightarrow>
   assessOption2 h cm data units =
     Inr (option2_calculate h cm data units
       \<lparr>o2_option = 2, o2_compliant = False,
        o2_gaps = filter (\<lambda>param. data param = Undefined \<or> data param = Null \<or>
                            data param = Str []) requiredParams @ g,
        o2_nonCompliant = [], o2_calculations = None\<rparr>)"
  by (simp add: assessOption2_def)

lemma assessOption2_Inl:
  "refrigeration_gaps h data = Inl e \<Longrightarrow> assessOption2 h cm data units = Inl e"
  by (simp add: assessOption2_def)


lemma option1_compliant_iff:
  "o1_compliant (assessOption1 h data) \<longleftrightarrow>
     truthy (data ''Refrigerant Used'') \<and> data ''ODP'' = Num (Fin 0) \<and>
     data ''GWP'' \<noteq> Undefined \<and> data ''GWP'' \<noteq> Null \<and>
     \<not> num_ge (ToNumber h (data ''GWP'')) (Fin 50) \<and>
     truthy (data ''Confirmation Statement'')"
  by (auto simp: assessOption1_def option1_odp_def option1_gwp_def option1_confirmation_def Let_def)

lemma option1_confirmation_gaps:
  "set (o1_gaps (option1_confirmation data result)) \<subseteq>
     set (o1_gaps result) \<union> {''Confirmation Statement''}"
  by (auto simp: option1_confirmation_def Let_def)

lemma option1_gwp_gaps:
  "set (o1_gaps (option1_gwp h data result)) \<subseteq>
     set (o1_gaps result) \<union> {''GWP Value'', ''Confirmation Statement''}"
  using option1_confirmation_gaps [of data "result\<lparr>o1_gaps := o1_gaps result @ [''GWP Value'']\<rparr>"]
    option1_confirmation_gaps [of data
      "result\<lparr>o1_requirements := (o1_requirements result)\<lparr>gwpLessThan50 := True\<rparr>\<rparr>"]
  by (auto simp: option1_gwp_def)

lemma option1_odp_gaps:
  "set (o1_gaps (option1_odp h data result)) \<subseteq>
     set (o1_gaps result) \<union> {''ODP Value'', ''GWP Value'', ''Confirmation Statement''}"
  using option1_gwp_gaps [of h data "result\<lparr>o1_gaps := o1_gaps result @ [''ODP Value'']\<rparr>"]
    option1_gwp_gaps [of h data
      "result\<lparr>o1_requirements := (o1_requirements result)\<lparr>odpZero := True\<rparr>\<rparr>"]
  by (auto simp: option1_odp_def)

lemma subset_via: "G \<subseteq> {a} \<Longrightarrow> X \<subseteq> G \<union> B \<Longrightarrow> X \<subseteq> insert a B"
  by blast

lemma assessOption1_present:
  "truthy (data ''Refrigerant Used'') \<Longrightarrow>
   assessOption1 h data = option1_odp h data
     \<lparr>o1_option = 1, o1_compliant = False, o1_gaps = [],
      o1_requirements = \<lparr>refrigerantUsed = True, odpZero = False,
        gwpLessThan50 = False, confirmationStatement = False\<rparr>\<rparr>"
  by (simp add: assessOption1_def)

lemma assessOption1_absent:
  "\<not> truthy (data ''Refrigerant Used'') \<Longrightarrow>
   assessOption1 h data = option1_odp h data
     \<lparr>o1_option = 1, o1_compliant = False, o1_gaps = [''Refrigerant Used''],
      o1_requirements = \<lparr>refrigerantUsed = False, odpZero = False,
        gwpLessThan50 = False, confirmationStatement = False\<rparr>\<rparr>"
  by (simp add: assessOption1_def)

lemma assessOption1_gaps:
  "set (o1_gaps (assessOption1 h data)) \<subseteq>
     {''Refrigerant Used'', ''ODP Value'', ''GWP Value'', ''Confirmation Statement''}"
proof (cases "truthy (data ''Refrigerant Used'')")
  case True
  show ?thesis
    unfolding assessOption1_present [where data = data, OF True]
    by (rule subset_via [OF _ option1_odp_gaps]) simp
next
  case False
  show ?thesis
    unfolding assessOption1_absent [where data = data, OF False]
    by (rule subset_via [OF _ option1_odp_gaps]) simp
qed

lemma EACr6_assess_option1:
  "hasBasicRefrigerantData data \<Longrightarrow> o1_compliant (assessOption1 h data) \<Longrightarrow>
   EACr6_assess h cm data units =
     Inr \<lparr>creditId = ''EACr6'', creditName = ''Enhanced Refrigerant Management'',
          awarded = True, points = 1, maxPoints = 1, gaps = [], nonCompliant = [],
          option = Some 1, details = Option1_details (assessOption1 h data)\<rparr>"
  by (simp add: EACr6_assess_def)

lemma EACr6_assess_option2:
  "\<not> (hasBasicRefrigerantData data \<and> o1_compliant (assessOption1 h data)) \<Longrightarrow>
   assessOption2 h cm data units = Inr o2 \<Longrightarrow>
   EACr6_assess h cm data units =
     Inr \<lparr>creditId = ''EACr6'', creditName = ''Enhanced Refrigerant Management'',
          awarded = (o2_compliant o2 \<and> o2_gaps o2 = []),
          points = (if o2_compliant o2 \<and> o2_gaps o2 = [] then 1 else 0), maxPoints = 1,
          gaps = o2_gaps o2, nonCompliant = o2_nonCompliant o2,
          option = Some 2, details = Option2_details o2\<rparr>"
  by (auto simp: EACr6_assess_def Let_def)

lemma EACr6_assess_throws:
  "\<not> (hasBasicRefrigerantData data \<and> o1_compliant (assessOption1 h data)) \<Longrightarrow>
   assessOption2 h cm data units = Inl e \<Longrightarrow> EACr6_assess h cm data units = Inl e"
  by (auto simp: EACr6_assess_def Let_def)

lemma assessOption2_compliant:
  assumes "assessOption2 h cm data units = Inr o2" and "o2_compliant o2"
  shows "o2_gaps o2 = [] \<and> o2_nonCompliant o2 = []"
proof (cases "refrigeration_gaps h data")
  case (Inl e)
  then show ?thesis using assms by (simp add: assessOption2_Inl)
next
  case (Inr g)
  show ?thesis
    using assms option2_calculate_compliant [of
      "\<lparr>o2_option = 2, o2_compliant = False,
        o2_gaps = filter (\<lambda>param. data param = Undefined \<or> data param = Null \<or>
                            data param = Str []) requiredParams @ g,
        o2_nonCompliant = [], o2_calculations = None\<rparr>" h cm data units]
    unfolding assessOption2_Inr [OF Inr] by auto
qed

lemma option_gap_names_disjoint:
  "{''Refrigerant Used'', ''ODP Value'', ''GWP Value'', ''Confirmation Statement''} \<inter>
   (set requiredParams \<union> {''Leakage Test Results'', ''Greenchill Certification Status''}) = {}"
  by (simp add: requiredParams_def)

lemma disjoint_via: "A \<subseteq> P \<Longrightarrow> B \<subseteq> Q \<Longrightarrow> Q \<inter> P = {} \<Longrightarrow> A \<inter> B = {}"
  by blast

lemma assessOption2_gaps:
  assumes "assessOption2 h cm data units = Inr o2"
  shows "set (o2_gaps o2) \<subseteq>
    set requiredParams \<union> {''Leakage Test Results'', ''Greenchill Certification Status''}"
proof -
  from refrigeration_gaps_cases [of h data] assms
  obtain g where g: "refrigeration_gaps h data = Inr g"
    and sub: "set g \<subseteq> {''Leakage Test Results'', ''Greenchill Certification Status''}"
    by (auto simp: assessOption2_Inl)
  have "set (o2_gaps o2) \<subseteq> set requiredParams \<union> set g"
    using assms unfolding assessOption2_Inr [OF g] by auto
  with sub show ?thesis by blast
qed

subsection \<open>What \<open>EACr6RuleSet.assess\<close> and \<open>IEQCr5RuleSet.assess\<close> report\<close>

text \<open>An awarded assessment of either rule set carries no gap and no non-compliance
  message.\<close>

lemma EACr6_awarded_no_findings:
  assumes "EACr6_assess h cm data units = Inr r" and "awarded r"
  shows "gaps r = [] \<and> nonCompliant r = []"
proof (cases "hasBasicRefrigerantData data \<and> o1_compliant (assessOption1 h data)")
  case True
  then show ?thesis using assms by (auto simp: EACr6_assess_option1)
next
  case False
  show ?thesis
  proof (cases "assessOption2 h cm data units")
    case (Inl e)
    then show ?thesis using assms False by (simp add: EACr6_assess_throws)
  next
    case (Inr o2)
    then show ?thesis
      using assms False assessOption2_compliant [OF Inr]
      by (auto simp: EACr6_assess_option2)
  qed
qed

lemma IEQCr5_awarded_no_findings:
  "awarded (IEQCr5_assess h cm data units) \<Longrightarrow>
   gaps (IEQCr5_assess h cm data units) = [] \<and> nonCompliant (IEQCr5_assess h cm data units) = []"
  by (auto simp: IEQCr5_assess_def Let_def split: if_splits)

text \<open>An assessment of \<open>EACr6RuleSet\<close> that is not awarded reports the gaps and the
  messages of Option 2 and nothing that Option 1 recorded.\<close>

lemma EACr6_not_awarded_reports_option2:
  assumes "EACr6_assess h cm data units = Inr r" and "\<not> awarded r"
  shows "\<exists>o2. assessOption2 h cm data units = Inr o2 \<and> gaps r = o2_gaps o2 \<and>
           nonCompliant r = o2_nonCompliant o2 \<and> option r = Some 2 \<and>
           set (gaps r) \<inter> set (o1_gaps (assessOption1 h data)) = {}"
proof (cases "hasBasicRefrigerantData data \<and> o1_compliant (assessOption1 h data)")
  case True
  then show ?thesis using assms by (auto simp: EACr6_assess_option1)
next
  case False
  show ?thesis
  proof (cases "assessOption2 h cm data units")
    case (Inl e)
    then show ?thesis using assms False by (simp add: EACr6_assess_throws)
  next
    case (Inr o2)
    have r: "gaps r = o2_gaps o2" "nonCompliant r = o2_nonCompliant o2" "option r = Some 2"
      using assms False Inr by (auto simp: EACr6_assess_option2)
    have "set (o2_gaps o2) \<inter> set (o1_gaps (assessOption1 h data)) = {}"
      by (rule disjoint_via [OF assessOption2_gaps [OF Inr] assessOption1_gaps
            option_gap_names_disjoint])
    with r Inr show ?thesis by simp
  qed
qed

subsection \<open>The second engine at concrete inputs\<close>

lemma evaluateCredit_r32:
  "evaluateCredit_EACr6 decimal_host r32_params ''IP'' =
     \<lparr>re_creditId = ''EACr6'', re_creditName = ''Enhanced Refrigerant Management'',
      re_maxPoints = 1, awardedPoints = 1, status = ''compliant'',
      re_gaps = [''Confirmation Statement''], re_nonCompliant = [],
      re_calculations = Some \<lparr>re_lcodp = Fin 0, re_lcgwp = Fin 81, re_impact = Fin 81,
        re_weightedAverage = Fin 81, re_totalCoolingCapacity = Fin 5, re_unitSystem = ''IP''\<rparr>,
      re_details = [''Option 2: Calculation of Refrigerant Impact'']\<rparr>"
  by (simp add: evaluateCredit_EACr6_def evaluateEACr6_def checkEACr6Option1_def
      checkEACr6Option2_def RuleEngine_calculateRefrigerantImpact_def engine_requiredParams_def
      r32_params_def get_def Let_def num_ge_def num_or_def)



subsection \<open>\<open>EACr6RuleSet.assess\<close> at concrete inputs\<close>

lemma EACr6_assess_no_params:
  "EACr6_assess decimal_host (CalculationModule decimal_host) no_params ''IP'' =
     Inr \<lparr>creditId = ''EACr6'', creditName = ''Enhanced Refrigerant Management'',
          awarded = False, points = 0, maxPoints = 1, gaps = requiredParams, nonCompliant = [],
          option = Some 2,
          details = Option2_details \<lparr>o2_option = 2, o2_compliant = False,
            o2_gaps = requiredParams, o2_nonCompliant = [], o2_calculations = None\<rparr>\<rparr>"
  by (simp add: EACr6_assess_def hasBasicRefrigerantData_def assessOption2_def
      refrigeration_gaps_def option2_calculate_def requiredParams_def no_params_def Let_def)

lemma EACr6_assess_boundary:
  "EACr6_assess decimal_host (CalculationModule decimal_host) boundary_params ''IP'' =
     Inr \<lparr>creditId = ''EACr6'', creditName = ''Enhanced Refrigerant Management'',
          awarded = True, points = 1, maxPoints = 1, gaps = [], nonCompliant = [],
          option = Some 1, details = Option1_details (assessOption1 decimal_host boundary_params)\<rparr>"
  by (rule EACr6_assess_option1)
     (simp_all add: hasBasicRefrigerantData_def option1_compliant_iff boundary_params_def
       get_def num_ge_def)

subsection \<open>The thermal comfort rule set, step by step\<close>

lemma part1_nonCompliant_steps [simp]:
  "p1_nonCompliant (part1_overall r) = p1_nonCompliant r"
  "p1_nonCompliant (part1_environment data r) = p1_nonCompliant r"
  "p1_nonCompliant (part1_compliance_path data r) = p1_nonCompliant r"
  by (simp_all add: part1_overall_def part1_environment_def part1_compliance_path_def Let_def)

lemma part1_absent_scores:
  "data ''PMV'' = Undefined \<Longrightarrow> p1_nonCompliant (part1_pmv h data r) = p1_nonCompliant r"
  "data ''PPD'' = Undefined \<Longrightarrow> p1_nonCompliant (part1_ppd h data r) = p1_nonCompliant r"
  by (simp_all add: part1_pmv_def part1_ppd_def)

lemma part2_nonCompliant_steps [simp]:
  "p2_nonCompliant (part2_overall r) = p2_nonCompliant r"
  "p2_nonCompliant (part2_thermostats data r) = p2_nonCompliant r"
  "p2_nonCompliant (part2_group_controls data r) = p2_nonCompliant r"
  by (simp_all add: part2_overall_def part2_thermostats_def part2_group_controls_def)

lemma part2_overall_compliant:
  "p2_compliant (part2_overall r) \<Longrightarrow> p2_compliant r \<or> p2_nonCompliant r = []"
  by (simp add: part2_overall_def split: if_splits)

lemma part2_compliant_steps [simp]:
  "p2_compliant (part2_thermostats data r) = p2_compliant r"
  "p2_compliant (part2_group_controls data r) = p2_compliant r"
  "p2_compliant (part2_spaces h cm data r) = p2_compliant r"
  by (simp_all add: part2_thermostats_def part2_group_controls_def part2_spaces_def Let_def
      split: sum.splits)

lemma part2_spaces_error:
  assumes "truthy (data ''Total Individual Spaces'')" and "truthy (data ''Controlled Spaces'')"
    and "calculateSpacePercentage cm (data ''Total Individual Spaces'') (data ''Controlled Spaces'') = Inl e"
  shows "part2_spaces h cm data r =
           r\<lparr>p2_nonCompliant := p2_nonCompliant r @ [''Space calculation error: '' @ message e]\<rparr>"
  using assms by (simp add: part2_spaces_def)

lemma assessPart2_error:
  assumes "truthy (data ''Total Individual Spaces'')" and "truthy (data ''Controlled Spaces'')"
    and "calculateSpacePercentage cm (data ''Total Individual Spaces'') (data ''Controlled Spaces'') = Inl e"
  shows "p2_nonCompliant (assessPart2 h cm data) = [''Space calculation error: '' @ message e] \<and>
         \<not> p2_compliant (assessPart2 h cm data)"
proof -
  have n: "p2_nonCompliant (assessPart2 h cm data) = [''Space calculation error: '' @ message e]"
    by (simp add: assessPart2_def part2_spaces_error [OF assms])
  have "\<not> p2_compliant (assessPart2 h cm data)"
  proof
    assume "p2_compliant (assessPart2 h cm data)"
    then have "p2_compliant (part2_overall (part2_thermostats data (part2_group_controls data
        (part2_spaces h cm data
          \<lparr>p2_part = 2, p2_compliant = False, p2_gaps = [], p2_nonCompliant = [],
           p2_calculations = None,
           p2_requirements = \<lparr>spacePercentageCompliant = False,
             groupControlsPresent = False, thermostatLocationsPresent = False\<rparr>\<rparr>))))"
      by (simp add: assessPart2_def)
    from part2_overall_compliant [OF this] show False
      by (simp add: part2_spaces_error [OF assms])
  qed
  with n show ?thesis by simp
qed

lemma IEQCr5_assess_fields:
  "nonCompliant (IEQCr5_assess h cm data units) =
     p1_nonCompliant (assessPart1 h data) @ p2_nonCompliant (assessPart2 h cm data) \<and>
   gaps (IEQCr5_assess h cm data units) = p1_gaps (assessPart1 h data) @ p2_gaps (assessPart2 h cm data) \<and>
   (awarded (IEQCr5_assess h cm data units) \<longrightarrow> p2_compliant (assessPart2 h cm data))"
  by (simp add: IEQCr5_assess_def Let_def)

lemma assessPart1_zero_spaces:
  "p1_nonCompliant (assessPart1 decimal_host zero_spaces_params) = []"
  by (simp add: assessPart1_def part1_absent_scores zero_spaces_params_def get_def)

subsection \<open>Exceptions of the calculation module\<close>

lemma EACr6_assess_escapes:
  "(\<exists>r. EACr6_assess h cm data units = Inr r) \<or>
   (\<exists>m. EACr6_assess h cm data units = Inl (TypeError m) \<and>
        refrigeration_gaps h data = Inl (TypeError m))"
proof (cases "hasBasicRefrigerantData data \<and> o1_compliant (assessOption1 h data)")
  case True
  then show ?thesis by (simp add: EACr6_assess_option1)
next
  case False
  from refrigeration_gaps_cases [of h data] show ?thesis
  proof (elim disjE exE conjE)
    fix g assume "refrigeration_gaps h data = Inr g"
    then show ?thesis
      using False by (simp add: EACr6_assess_option2 [OF False assessOption2_Inr])
  next
    fix m assume "refrigeration_gaps h data = Inl (TypeError m)"
    then show ?thesis
      using False by (simp add: EACr6_assess_throws [OF False assessOption2_Inl])
  qed
qed

lemma EACr6_assess_calculation_error:
  assumes o1: "\<not> (hasBasicRefrigerantData data \<and> o1_compliant (assessOption1 h data))"
    and g: "refrigeration_gaps h data = Inr []"
    and m: "filter (\<lambda>param. data param = Undefined \<or> data param = Null \<or> data param = Str [])
              requiredParams = []"
    and e: "calculateRefrigerantImpact cm data units = Inl e"
  shows "\<exists>r. EACr6_assess h cm data units = Inr r \<and>
           nonCompliant r = [''Calculation error: '' @ message e] \<and> gaps r = [] \<and> \<not> awarded r"
  by (simp add: EACr6_assess_option2 [OF o1 assessOption2_Inr [OF g]] m
      option2_calculate_error [OF _ e])

lemma zero_spaces_throws:
  "calculateSpacePercentage (CalculationModule decimal_host)
     (zero_spaces_params ''Total Individual Spaces'') (zero_spaces_params ''Controlled Spaces'') =
   Inl (Error ''Total spaces must be greater than 0'')"
  by (simp add: CalculationModule_def CalculationModule_calculateSpacePercentage_def
      zero_spaces_params_def get_def decimal_host_def read_decimal_def read_sign_def
      read_fraction_def trim_start_def is_digit_def digits_value_def)

lemma option2_params_facts:
  "\<not> (hasBasicRefrigerantData option2_params \<and>
       o1_compliant (assessOption1 decimal_host option2_params))"
  "refrigeration_gaps decimal_host option2_params = Inr []"
  "filter (\<lambda>param. option2_params param = Undefined \<or> option2_params param = Null \<or>
      option2_params param = Str []) requiredParams = []"
  "calculateRefrigerantImpact throwing_module option2_params ''IP'' =
     Inl (Error ''Equipment data unavailable'')"
  by (simp_all add: hasBasicRefrigerantData_def refrigeration_gaps_def requiredParams_def
      throwing_module_def option2_params_def get_def)

subsection \<open>The ODP check of the two engines\<close>




subsection \<open>Comparisons\<close>

lemma num_lt_le: "num_lt (Fin 0) x \<Longrightarrow> \<not> num_le x (Fin 0)"
  by (cases x) simp_all

section \<open>Properties of the consolidator\<close>

subsection \<open>The extraction loop\<close>

lemma get_update: "get (AList.update k v obj) p = (if p = k then v else get obj p)"
  by (simp add: get_def update_conv')

lemma get_Nil [simp]: "get [] p = Undefined"
  by (simp add: get_def)

lemma lookup_own: "get obj k \<noteq> Undefined \<Longrightarrow> lookup obj k = get obj k"
  by (simp add: lookup_def get_def split: option.splits)

lemma tracks_distinct: "tracks st A \<Longrightarrow> distinct (map fst (st_conflicts st))"
  by (simp add: tracks_def)

lemma tracks_at:
  assumes "tracks st A"
  shows "\<forall>c \<in> set (A p). cvalue c \<noteq> Undefined \<and> (\<exists>d. document c = Str d)"
    and "map_of (consolidatedData st) p = (case A p of [] \<Rightarrow> None | c # cs \<Rightarrow> Some (cvalue c))"
    and "map_of (dataSources st) p = (case A p of [] \<Rightarrow> None | c # cs \<Rightarrow> Some (document c))"
    and "map_of (st_conflicts st) p = (if 2 \<le> length (A p) then Some (A p) else None)"
    and "inherited p \<Longrightarrow> A p = []"
  using assms by (simp_all add: tracks_def)

lemma tracksI:
  assumes "distinct (map fst (st_conflicts st))"
    and "\<And>p c. c \<in> set (A p) \<Longrightarrow> cvalue c \<noteq> Undefined \<and> (\<exists>d. document c = Str d)"
    and "\<And>p. inherited p \<Longrightarrow> A p = []"
    and "\<And>p. map_of (consolidatedData st) p =
               (case A p of [] \<Rightarrow> None | c # cs \<Rightarrow> Some (cvalue c))"
    and "\<And>p. map_of (dataSources st) p =
               (case A p of [] \<Rightarrow> None | c # cs \<Rightarrow> Some (document c))"
    and "\<And>p. map_of (st_conflicts st) p = (if 2 \<le> length (A p) then Some (A p) else None)"
  shows "tracks st A"
  using assms by (simp add: tracks_def)

lemma tracks_first:
  assumes t: "tracks st A" and q: "A q = []" and v: "v \<noteq> Undefined" and n: "\<not> inherited q"
  shows "tracks (st\<lparr>consolidatedData := AList.update q v (consolidatedData st),
                    dataSources := AList.update q (Str d) (dataSources st)\<rparr>)
           (A(q := [\<lparr>document = Str d, cvalue = v\<rparr>]))"
proof (rule tracksI)
  show "distinct (map fst (st_conflicts (st\<lparr>consolidatedData := AList.update q v (consolidatedData st),
                    dataSources := AList.update q (Str d) (dataSources st)\<rparr>)))"
    using tracks_distinct [OF t] by simp
next
  fix p c assume "c \<in> set ((A(q := [\<lparr>document = Str d, cvalue = v\<rparr>])) p)"
  then show "cvalue c \<noteq> Undefined \<and> (\<exists>d. document c = Str d)"
    using tracks_at(1) [OF t, of p] v by (cases "p = q") auto
next
  fix p assume "inherited p"
  then show "(A(q := [\<lparr>document = Str d, cvalue = v\<rparr>])) p = []"
    using tracks_at(5) [OF t, of p] n by auto
next
  fix p
  show "map_of (consolidatedData (st\<lparr>consolidatedData := AList.update q v (consolidatedData st),
                    dataSources := AList.update q (Str d) (dataSources st)\<rparr>)) p =
        (case (A(q := [\<lparr>document = Str d, cvalue = v\<rparr>])) p of [] \<Rightarrow> None
         | c # cs \<Rightarrow> Some (cvalue c))"
    using tracks_at(2) [OF t, of p] by (simp add: update_conv')
  show "map_of (dataSources (st\<lparr>consolidatedData := AList.update q v (consolidatedData st),
                    dataSources := AList.update q (Str d) (dataSources st)\<rparr>)) p =
        (case (A(q := [\<lparr>document = Str d, cvalue = v\<rparr>])) p of [] \<Rightarrow> None
         | c # cs \<Rightarrow> Some (document c))"
    using tracks_at(3) [OF t, of p] by (simp add: update_conv')
  show "map_of (st_conflicts (st\<lparr>consolidatedData := AList.update q v (consolidatedData st),
                    dataSources := AList.update q (Str d) (dataSources st)\<rparr>)) p =
        (if 2 \<le> length ((A(q := [\<lparr>document = Str d, cvalue = v\<rparr>])) p)
         then Some ((A(q := [\<lparr>document = Str d, cvalue = v\<rparr>])) p) else None)"
    using tracks_at(4) [OF t, of p] q by simp
qed

lemma tracks_second:
  assumes t: "tracks st A" and q: "A q = [c]" and v: "v \<noteq> Undefined"
  shows "tracks (st\<lparr>st_conflicts := AList.map_entry q (\<lambda>cl. cl @ [\<lparr>document = Str d, cvalue = v\<rparr>])
                    (AList.update q [\<lparr>document = lookup (dataSources st) q,
                                     cvalue = lookup (consolidatedData st) q\<rparr>] (st_conflicts st))\<rparr>)
           (A(q := A q @ [\<lparr>document = Str d, cvalue = v\<rparr>]))"
proof (rule tracksI)
  show "distinct (map fst (st_conflicts (st\<lparr>st_conflicts := AList.map_entry q (\<lambda>cl. cl @ [\<lparr>document = Str d, cvalue = v\<rparr>])
                    (AList.update q [\<lparr>document = lookup (dataSources st) q,
                                     cvalue = lookup (consolidatedData st) q\<rparr>] (st_conflicts st))\<rparr>)))"
    using tracks_distinct [OF t] by (simp add: distinct_map_entry distinct_update)
next
  fix p c' assume "c' \<in> set ((A(q := A q @ [\<lparr>document = Str d, cvalue = v\<rparr>])) p)"
  then show "cvalue c' \<noteq> Undefined \<and> (\<exists>d. document c' = Str d)"
    using tracks_at(1) [OF t, of p] v by (cases "p = q") auto
next
  fix p assume "inherited p"
  then show "(A(q := A q @ [\<lparr>document = Str d, cvalue = v\<rparr>])) p = []"
    using tracks_at(5) [OF t, of p] tracks_at(5) [OF t, of q] q by auto
next
  fix p
  let ?st = "st\<lparr>st_conflicts := AList.map_entry q (\<lambda>cl. cl @ [\<lparr>document = Str d, cvalue = v\<rparr>])
                    (AList.update q [\<lparr>document = lookup (dataSources st) q,
                                     cvalue = lookup (consolidatedData st) q\<rparr>] (st_conflicts st))\<rparr>"
  let ?A = "A(q := A q @ [\<lparr>document = Str d, cvalue = v\<rparr>])"
  show "map_of (consolidatedData ?st) p = (case ?A p of [] \<Rightarrow> None | c # cs \<Rightarrow> Some (cvalue c))"
    using tracks_at(2) [OF t, of p] q by simp
  show "map_of (dataSources ?st) p = (case ?A p of [] \<Rightarrow> None | c # cs \<Rightarrow> Some (document c))"
    using tracks_at(3) [OF t, of p] q by simp
  have c: "\<lparr>document = lookup (dataSources st) q, cvalue = lookup (consolidatedData st) q\<rparr> = c"
    using tracks_at(2) [OF t, of q] tracks_at(3) [OF t, of q] q by (simp add: lookup_def)
  show "map_of (st_conflicts ?st) p = (if 2 \<le> length (?A p) then Some (?A p) else None)"
    using tracks_at(4) [OF t, of p] q c
    by (simp add: map_of_map_entry update_conv')
qed

lemma tracks_later:
  assumes t: "tracks st A" and q: "2 \<le> length (A q)" and v: "v \<noteq> Undefined"
  shows "tracks (st\<lparr>st_conflicts := AList.map_entry q (\<lambda>cl. cl @ [\<lparr>document = Str d, cvalue = v\<rparr>])
                    (st_conflicts st)\<rparr>)
           (A(q := A q @ [\<lparr>document = Str d, cvalue = v\<rparr>]))"
proof (rule tracksI)
  show "distinct (map fst (st_conflicts (st\<lparr>st_conflicts := AList.map_entry q (\<lambda>cl. cl @ [\<lparr>document = Str d, cvalue = v\<rparr>])
                    (st_conflicts st)\<rparr>)))"
    using tracks_distinct [OF t] by (simp add: distinct_map_entry)
next
  fix p c' assume "c' \<in> set ((A(q := A q @ [\<lparr>document = Str d, cvalue = v\<rparr>])) p)"
  then show "cvalue c' \<noteq> Undefined \<and> (\<exists>d. document c' = Str d)"
    using tracks_at(1) [OF t, of p] v by (cases "p = q") auto
next
  fix p assume "inherited p"
  then show "(A(q := A q @ [\<lparr>document = Str d, cvalue = v\<rparr>])) p = []"
    using tracks_at(5) [OF t, of p] tracks_at(5) [OF t, of q] q by auto
next
  fix p
  let ?st = "st\<lparr>st_conflicts := AList.map_entry q (\<lambda>cl. cl @ [\<lparr>document = Str d, cvalue = v\<rparr>])
                    (st_conflicts st)\<rparr>"
  let ?A = "A(q := A q @ [\<lparr>document = Str d, cvalue = v\<rparr>])"
  show "map_of (consolidatedData ?st) p = (case ?A p of [] \<Rightarrow> None | c # cs \<Rightarrow> Some (cvalue c))"
    using tracks_at(2) [OF t, of p] q by (cases "A q") auto
  show "map_of (dataSources ?st) p = (case ?A p of [] \<Rightarrow> None | c # cs \<Rightarrow> Some (document c))"
    using tracks_at(3) [OF t, of p] q by (cases "A q") auto
  show "map_of (st_conflicts ?st) p = (if 2 \<le> length (?A p) then Some (?A p) else None)"
    using tracks_at(4) [OF t, of p] tracks_at(4) [OF t, of q] q
    by (simp add: map_of_map_entry)
qed

text \<open>A non-empty value under the name of an inherited member ends the loop with a
  \<open>TypeError\<close>, on its first arrival.\<close>

lemma record_parameter_throws:
  assumes t: "tracks st A" and i: "inherited q" and n: "non_empty (vs q)"
  shows "record_parameter docName vs q st =
           Inl (TypeError ''conflicts[parameter].push is not a function'')"
proof -
  have "A q = []" using tracks_at(5) [OF t i] .
  then have "map_of (consolidatedData st) q = None" "map_of (st_conflicts st) q = None"
    using tracks_at(2) [OF t, of q] tracks_at(4) [OF t, of q] by simp_all
  then show ?thesis
    using i n by (simp add: record_parameter_def non_empty_def lookup_def Let_def)
qed

lemma record_parameter_tracks:
  assumes t: "tracks st A" and ok: "\<not> (inherited q \<and> non_empty (vs q))"
  shows "\<exists>st'. record_parameter docName vs q st = Inr st' \<and>
           tracks st' (if non_empty (vs q)
             then A(q := A q @ [\<lparr>document = Str docName, cvalue = vs q\<rparr>]) else A)"
proof (cases "non_empty (vs q)")
  case False
  then show ?thesis using t by (auto simp: record_parameter_def non_empty_def Let_def)
next
  case True
  then have v: "vs q \<noteq> Undefined" "vs q \<noteq> Null" "vs q \<noteq> Str []"
    by (simp_all add: non_empty_def)
  from True ok have n: "\<not> inherited q" by simp
  show ?thesis
  proof (cases "A q")
    case Nil
    then have "lookup (consolidatedData st) q = Undefined"
      using tracks_at(2) [OF t, of q] n by (simp add: lookup_def)
    then have "record_parameter docName vs q st =
        Inr (st\<lparr>consolidatedData := AList.update q (vs q) (consolidatedData st),
                dataSources := AList.update q (Str docName) (dataSources st)\<rparr>)"
      using v by (simp add: record_parameter_def Let_def)
    then show ?thesis
      using tracks_first [OF t Nil v(1) n, of docName] True Nil by simp
  next
    case (Cons c cs)
    then have g: "lookup (consolidatedData st) q \<noteq> Undefined"
      using tracks_at(2) [OF t, of q] tracks_at(1) [OF t, of q] by (simp add: lookup_def)
    show ?thesis
    proof (cases cs)
      case Nil
      then have one: "A q = [c]" using Cons by simp
      then have "map_of (st_conflicts st) q = None"
        using tracks_at(4) [OF t, of q] by simp
      then have "record_parameter docName vs q st =
          Inr (st\<lparr>st_conflicts := AList.map_entry q
                (\<lambda>cl. cl @ [\<lparr>document = Str docName, cvalue = vs q\<rparr>])
                (AList.update q [\<lparr>document = lookup (dataSources st) q,
                                 cvalue = lookup (consolidatedData st) q\<rparr>] (st_conflicts st))\<rparr>)"
        using v g n by (simp add: record_parameter_def Let_def update_conv')
      then show ?thesis
        using tracks_second [OF t one v(1), of docName] True by simp
    next
      case (Cons c' cs')
      then have two: "2 \<le> length (A q)" using \<open>A q = c # cs\<close> by simp
      then have "map_of (st_conflicts st) q = Some (A q)"
        using tracks_at(4) [OF t, of q] by simp
      then have "record_parameter docName vs q st =
          Inr (st\<lparr>st_conflicts := AList.map_entry q
                (\<lambda>cl. cl @ [\<lparr>document = Str docName, cvalue = vs q\<rparr>])
                (st_conflicts st)\<rparr>)"
        using v g by (simp add: record_parameter_def Let_def)
      then show ?thesis
        using tracks_later [OF t two v(1), of docName] True by simp
    qed
  qed
qed

lemma record_each_tracks:
  "tracks st A \<Longrightarrow>
   (if \<exists>q \<in> set ps. inherited q \<and> non_empty (vs q)
    then record_each docName vs ps st =
           Inl (TypeError ''conflicts[parameter].push is not a function'')
    else \<exists>st'. record_each docName vs ps st = Inr st' \<and>
           tracks st'
             (\<lambda>p. A p @ (if non_empty (vs p)
                  then map (\<lambda>q. \<lparr>document = Str docName, cvalue = vs p\<rparr>)
                         (filter (\<lambda>q. q = p) ps)
                  else [])))"
proof (induction ps arbitrary: st A)
  case Nil
  then show ?case by (simp cong: if_cong)
next
  case (Cons q qs)
  show ?case
  proof (cases "inherited q \<and> non_empty (vs q)")
    case True
    then show ?thesis
      using record_parameter_throws [OF Cons.prems, of q vs docName] by simp
  next
    case False
    let ?A1 = "if non_empty (vs q)
               then A(q := A q @ [\<lparr>document = Str docName, cvalue = vs q\<rparr>]) else A"
    from record_parameter_tracks [where vs = vs and q = q, OF Cons.prems False, of docName]
    obtain st1 where s: "record_parameter docName vs q st = Inr st1"
      and t1: "tracks st1 ?A1" by blast
    have eq: "(\<lambda>p. ?A1 p @ (if non_empty (vs p)
                  then map (\<lambda>q. \<lparr>document = Str docName, cvalue = vs p\<rparr>)
                         (filter (\<lambda>q. q = p) qs)
                  else [])) =
            (\<lambda>p. A p @ (if non_empty (vs p)
                  then map (\<lambda>q. \<lparr>document = Str docName, cvalue = vs p\<rparr>)
                         (filter (\<lambda>q. q = p) (q # qs))
                  else []))"
      by (rule ext) auto
    from Cons.IH [OF t1] False s show ?thesis
      unfolding eq by (auto split: if_splits)
  qed
qed

lemma process_document_tracks:
  assumes "tracks st A"
  shows "if \<exists>p \<in> set (doc_parameters credit (snd doc)).
              inherited p \<and> non_empty (doc_value credit p (snd doc))
         then process_document credit doc st =
                Inl (TypeError ''conflicts[parameter].push is not a function'')
         else \<exists>st'. process_document credit doc st = Inr st' \<and>
                tracks st' (\<lambda>p. A p @ supplied credit p doc)"
proof (cases doc)
  case (Pair docName docData)
  show ?thesis
  proof (cases "docData credit")
    case None
    then have "process_document credit doc st =
        Inr (st\<lparr>st_processingLog := st_processingLog st @
          [''Document '' @ docName @ '' does not contain '' @ credit @ '' data'']\<rparr>)"
      using Pair by (simp add: process_document_def)
    moreover have "(\<lambda>p. A p @ supplied credit p doc) = A"
      using None Pair by (simp add: supplied_def doc_value_def doc_parameters_def non_empty_def)
    moreover have "doc_parameters credit (snd doc) = []"
      using None Pair by (simp add: doc_parameters_def)
    ultimately show ?thesis using assms by (simp add: tracks_def)
  next
    case (Some creditData)
    let ?ps = "case Parameters creditData of None \<Rightarrow> [] | Some ps \<Rightarrow> ps"
    let ?vs = "credit_values creditData"
    have p: "process_document credit doc st = record_each docName ?vs ?ps st"
      using Some Pair by (simp add: process_document_def)
    have v: "\<And>p. doc_value credit p docData = ?vs p"
      using Some by (simp add: doc_value_def)
    have d: "doc_parameters credit docData = ?ps"
      using Some by (simp add: doc_parameters_def)
    have "(\<lambda>p. A p @ supplied credit p doc) =
          (\<lambda>p. A p @ (if non_empty (?vs p)
                  then map (\<lambda>q. \<lparr>document = Str docName, cvalue = ?vs p\<rparr>)
                         (filter (\<lambda>q. q = p) ?ps)
                  else []))"
      using Pair by (simp add: supplied_def v d cong: if_cong)
    then show ?thesis
      using record_each_tracks [OF assms, of ?ps ?vs docName] p Pair
      by (simp add: v d split: if_splits)
  qed
qed

lemma process_each_tracks:
  "tracks st A \<Longrightarrow>
   (if names_inherited_member credit docs
    then process_each credit docs st =
           Inl (TypeError ''conflicts[parameter].push is not a function'')
    else \<exists>st'. process_each credit docs st = Inr st' \<and>
           tracks st' (\<lambda>p. A p @ arrivals credit docs p))"
proof (induction docs arbitrary: st A)
  case Nil
  then show ?case by (simp add: arrivals_def names_inherited_member_def)
next
  case (Cons doc docs)
  show ?case
  proof (cases "\<exists>p \<in> set (doc_parameters credit (snd doc)).
              inherited p \<and> non_empty (doc_value credit p (snd doc))")
    case True
    then have "process_document credit doc st =
                Inl (TypeError ''conflicts[parameter].push is not a function'')"
      using process_document_tracks [OF Cons.prems, of credit doc] by simp
    moreover have "names_inherited_member credit (doc # docs)"
      using True by (simp add: names_inherited_member_def)
    ultimately show ?thesis by simp
  next
    case False
    then obtain st1 where s: "process_document credit doc st = Inr st1"
      and t1: "tracks st1 (\<lambda>p. A p @ supplied credit p doc)"
      using process_document_tracks [OF Cons.prems, of credit doc]
      by (auto split: if_splits)
    have n: "names_inherited_member credit (doc # docs) = names_inherited_member credit docs"
      using False by (auto simp: names_inherited_member_def)
    from Cons.IH [OF t1] s show ?thesis
      by (auto simp: n arrivals_def split: if_splits)
  qed
qed

text \<open>The extraction either throws, when a document supplies a parameter under the name
  of an inherited member, or returns a state that holds the arrivals.\<close>

lemma extract_parameters_cases:
  "if names_inherited_member credit docs
   then extract_parameters docs credit =
          Inl (TypeError ''conflicts[parameter].push is not a function'')
   else \<exists>st. extract_parameters docs credit = Inr st \<and> tracks st (arrivals credit docs)"
proof -
  have "tracks \<lparr>consolidatedData = [], dataSources = [], st_conflicts = [], st_processingLog = []\<rparr>
          (\<lambda>p. [])"
    by (simp add: tracks_def)
  from process_each_tracks [OF this, of credit docs]
  show ?thesis by (auto simp: extract_parameters_def split: if_splits)
qed

lemma extract_parameters_tracks:
  assumes "extract_parameters docs credit = Inr st"
  shows "tracks st (arrivals credit docs)"
  using extract_parameters_cases [of credit docs] assms
  by (cases "names_inherited_member credit docs") auto

lemma extract_parameters_returns:
  assumes "\<not> names_inherited_member credit docs"
  shows "\<exists>st. extract_parameters docs credit = Inr st"
  using extract_parameters_cases [of credit docs] assms by auto

lemma conflicts_lookup:
  assumes "extract_parameters docs credit = Inr st"
  shows "map_of (st_conflicts st) p =
     (if 2 \<le> length (arrivals credit docs p) then Some (arrivals credit docs p) else None)"
  by (rule tracks_at(4) [OF extract_parameters_tracks [OF assms]])

lemma first_recorded:
  assumes "extract_parameters docs credit = Inr st"
  shows "get (consolidatedData st) p =
     (case arrivals credit docs p of [] \<Rightarrow> Undefined | c # cs \<Rightarrow> cvalue c)"
    and "get (dataSources st) p =
     (case arrivals credit docs p of [] \<Rightarrow> Undefined | c # cs \<Rightarrow> document c)"
  using tracks_at(2) [OF extract_parameters_tracks [OF assms], of p]
    tracks_at(3) [OF extract_parameters_tracks [OF assms], of p]
  by (simp_all add: get_def split: list.splits)

lemma arrivals_wellformed:
  assumes "extract_parameters docs credit = Inr st"
  shows "c \<in> set (arrivals credit docs p) \<Longrightarrow>
    cvalue c \<noteq> Undefined \<and> (\<exists>d. document c = Str d)"
  using tracks_at(1) [OF extract_parameters_tracks [OF assms], of p] by blast

lemma conflicts_distinct:
  assumes "extract_parameters docs credit = Inr st"
  shows "distinct (map fst (st_conflicts st))"
  by (rule tracks_distinct [OF extract_parameters_tracks [OF assms]])

lemma conflicts_entry:
  assumes "extract_parameters docs credit = Inr st" and "(p, cl) \<in> set (st_conflicts st)"
  shows "cl = arrivals credit docs p \<and> 2 \<le> length cl"
proof -
  have "map_of (st_conflicts st) p = Some cl"
    using assms(2) conflicts_distinct [OF assms(1)] by simp
  then show ?thesis
    by (simp add: conflicts_lookup [OF assms(1)] split: if_splits)
qed

lemma conflicts_entry_wellformed:
  assumes "extract_parameters docs credit = Inr st" and "(p, cl) \<in> set (st_conflicts st)"
  shows "cl \<noteq> [] \<and> (\<forall>c \<in> set cl. cvalue c \<noteq> Undefined \<and> (\<exists>d. document c = Str d))"
  using conflicts_entry [OF assms] arrivals_wellformed [OF assms(1), of _ p] by auto

lemma priority_scan_total:
  "\<forall>c \<in> set cl. \<exists>d. document c = Str d \<Longrightarrow>
   \<exists>b. priority_scan h priorities cl best = Inr b \<and> (b = best \<or> fst b \<in> set cl)"
proof (induction cl arbitrary: best)
  case Nil
  then show ?case by simp
next
  case (Cons c cl)
  then obtain d where d: "document c = Str d" by auto
  obtain pr where pr: "getDocumentPriority h (document c) priorities = Inr pr"
    by (simp add: getDocumentPriority_def d Let_def)
  from Cons.prems have "\<forall>c \<in> set cl. \<exists>d. document c = Str d" by simp
  from Cons.IH [OF this, of "if num_gt pr (snd best) then (c, pr) else best"]
  show ?case by (auto simp: pr)
qed

lemma resolveBypriority_total:
  assumes "cl \<noteq> []" and "\<forall>c \<in> set cl. \<exists>d. document c = Str d"
  shows "\<exists>b pr. resolveBypriority h cl custom = Inr (cvalue b, document b, pr) \<and> b \<in> set cl"
proof -
  obtain c rest where cl: "cl = c # rest" using assms(1) by (cases cl) auto
  then obtain d where d: "document c = Str d" using assms(2) by auto
  let ?ps = "fold (\<lambda>(k, v). AList.update k v) custom priorityRules"
  obtain pr where pr: "getDocumentPriority h (document c) ?ps = Inr pr"
    by (simp add: getDocumentPriority_def d Let_def)
  from priority_scan_total [OF assms(2), of h ?ps "(c, pr)"]
  obtain b where b: "priority_scan h ?ps cl (c, pr) = Inr b" "b = (c, pr) \<or> fst b \<in> set cl"
    by blast
  then have "fst b \<in> set cl" using cl by auto
  then show ?thesis
    using b(1) pr cl by (cases b) (auto simp: resolveBypriority_def Let_def)
qed

lemma resolve_switch_total:
  assumes "cl \<noteq> []" and "\<forall>c \<in> set cl. \<exists>d. document c = Str d"
  shows "\<exists>r. resolve_switch h data strategy opts p cl = Inr r"
proof (cases "strategy = ''priority''")
  case True
  from resolveBypriority_total [OF assms, of h "customPriorities opts"]
  show ?thesis using True by (auto simp: resolve_switch_def)
next
  case False
  then show ?thesis
    using assms(1) by (auto simp: resolve_switch_def Let_def split: option.splits)
qed

lemma resolve_each_total:
  "\<forall>(p, cl) \<in> set entries. cl \<noteq> [] \<and> (\<forall>c \<in> set cl. \<exists>d. document c = Str d) \<Longrightarrow>
   \<exists>acc'. resolve_each h data strategy opts entries acc = Inr acc'"
proof (induction entries arbitrary: acc)
  case Nil
  then show ?case by simp
next
  case (Cons entry entries)
  obtain p cl where e: "entry = (p, cl)" by (cases entry)
  with Cons.prems have "cl \<noteq> []" "\<forall>c \<in> set cl. \<exists>d. document c = Str d" by auto
  from resolve_switch_total [OF this, of h data strategy opts p]
  obtain r where "resolve_switch h data strategy opts p cl = Inr r" by blast
  then obtain acc1 where "resolve_conflict h data strategy opts entry acc = Inr acc1"
    by (cases r) (simp add: resolve_conflict_def e)
  moreover from Cons.prems
  have "\<forall>(p, cl) \<in> set entries. cl \<noteq> [] \<and> (\<forall>c \<in> set cl. \<exists>d. document c = Str d)" by simp
  from Cons.IH [OF this, of acc1]
  obtain acc' where "resolve_each h data strategy opts entries acc1 = Inr acc'" by blast
  ultimately show ?case by simp
qed

lemma consolidateData_returns:
  assumes "\<not> names_inherited_member credit docs"
  shows "\<exists>out. consolidateData h docs credit opts = Inr out"
proof -
  obtain st where st: "extract_parameters docs credit = Inr st"
    using extract_parameters_returns [OF assms] by blast
  have "\<forall>(p, cl) \<in> set (st_conflicts st). cl \<noteq> [] \<and> (\<forall>c \<in> set cl. \<exists>d. document c = Str d)"
    using conflicts_entry_wellformed [OF st] by blast
  from resolve_each_total [OF this]
  obtain r where "resolveConflicts h (consolidatedData st) (st_conflicts st)
      (conflictResolution opts)
      \<lparr>customPriorities = co_customPriorities opts,
       manualResolutions = co_manualResolutions opts,
       opt_dataSources = dataSources st\<rparr> = Inr r"
    unfolding resolveConflicts_def by blast
  then show ?thesis by (simp add: consolidateData_def st)
qed

lemma consolidateData_throws:
  assumes "names_inherited_member credit docs"
  shows "consolidateData h docs credit opts =
           Inl (TypeError ''conflicts[parameter].push is not a function'')"
  using extract_parameters_cases [of credit docs] assms by (simp add: consolidateData_def)

subsection \<open>Arrival order and resolution\<close>

lemma arrivals_append:
  "arrivals credit (xs @ ys) p = arrivals credit xs p @ arrivals credit ys p"
  by (simp add: arrivals_def)

lemma arrivals_Cons:
  "arrivals credit (x # xs) p = supplied credit p x @ arrivals credit xs p"
  by (simp add: arrivals_def)

lemma supplied_Nil_iff: "supplied credit p doc = [] \<longleftrightarrow> \<not> supplies credit p (snd doc)"
  by (auto simp: supplied_def supplies_def filter_empty_conv)

lemma supplied_elem:
  "c \<in> set (supplied credit p (d, dd)) \<Longrightarrow>
   c = \<lparr>document = Str d, cvalue = doc_value credit p dd\<rparr>"
  by (auto simp: supplied_def split: if_splits)

lemma arrivals_none:
  "\<forall>x \<in> set xs. \<not> supplies credit p (snd x) \<Longrightarrow> arrivals credit xs p = []"
  by (simp add: arrivals_def supplied_Nil_iff)


lemma supplied_last:
  assumes "supplies credit p dd"
  shows "supplied credit p (d, dd) \<noteq> [] \<and>
         last (supplied credit p (d, dd)) = \<lparr>document = Str d, cvalue = doc_value credit p dd\<rparr>"
proof -
  have n: "supplied credit p (d, dd) \<noteq> []" using assms by (simp add: supplied_Nil_iff)
  then have "last (supplied credit p (d, dd)) \<in> set (supplied credit p (d, dd))" by simp
  from supplied_elem [OF this] n show ?thesis by simp
qed

lemma arrivals_last:
  assumes "docs = pre @ (d, dd) # post" and "supplies credit p dd"
    and "\<forall>x \<in> set post. \<not> supplies credit p (snd x)"
  shows "last (arrivals credit docs p) = \<lparr>document = Str d, cvalue = doc_value credit p dd\<rparr>"
  using supplied_last [OF assms(2), of d] arrivals_none [OF assms(3)]
  by (simp add: assms(1) arrivals_append arrivals_Cons)


lemma resolve_each_latest:
  assumes "\<forall>(p, cl) \<in> set entries. cl \<noteq> [] \<and> cvalue (last cl) \<noteq> Undefined"
    and "distinct (map fst entries)"
  shows "\<exists>acc'. resolve_each h data ''latest'' opts entries acc = Inr acc' \<and>
     (\<forall>p. get (resolved_data acc') p =
            (case map_of entries p of Some cl \<Rightarrow> cvalue (last cl) | None \<Rightarrow> get (resolved_data acc) p) \<and>
          get (resolved_sources acc') p =
            (case map_of entries p of Some cl \<Rightarrow> document (last cl)
             | None \<Rightarrow> get (resolved_sources acc) p))"
  using assms
proof (induction entries arbitrary: acc)
  case Nil
  then show ?case by simp
next
  case (Cons entry entries)
  obtain q cl where e: "entry = (q, cl)" by (cases entry)
  with Cons.prems have cl: "cl \<noteq> []" "cvalue (last cl) \<noteq> Undefined"
    and q: "map_of entries q = None"
    by (auto simp: map_of_eq_None_iff)
  let ?acc1 = "acc\<lparr>resolved_data := AList.update q (cvalue (last cl)) (resolved_data acc),
                    resolved_sources := AList.update q (document (last cl)) (resolved_sources acc),
                    resolved_log := resolved_log acc @
                      [\<lparr>log_parameter = q, log_conflicts = cl,
                        resolvedValue = cvalue (last cl), resolvedSource = document (last cl),
                        log_method = Str ''latest-document''\<rparr>]\<rparr>"
  have step: "resolve_conflict h data ''latest'' opts entry acc = Inr ?acc1"
    using cl by (simp add: resolve_conflict_def resolve_switch_def e Let_def)
  from Cons.prems have "\<forall>(p, cl) \<in> set entries. cl \<noteq> [] \<and> cvalue (last cl) \<noteq> Undefined"
    and "distinct (map fst entries)" by simp_all
  from Cons.IH [OF this, of ?acc1]
  obtain acc' where acc': "resolve_each h data ''latest'' opts entries ?acc1 = Inr acc'"
    and vals: "\<And>p. get (resolved_data acc') p =
            (case map_of entries p of Some cl \<Rightarrow> cvalue (last cl) | None \<Rightarrow> get (resolved_data ?acc1) p)"
          "\<And>p. get (resolved_sources acc') p =
            (case map_of entries p of Some cl \<Rightarrow> document (last cl)
             | None \<Rightarrow> get (resolved_sources ?acc1) p)"
    by blast
  have "resolve_each h data ''latest'' opts (entry # entries) acc = Inr acc'"
    using step acc' by simp
  moreover have "\<And>p. get (resolved_data acc') p =
            (case map_of (entry # entries) p of Some cl \<Rightarrow> cvalue (last cl)
             | None \<Rightarrow> get (resolved_data acc) p)"
    using q by (simp add: vals e get_update split: option.splits)
  moreover have "\<And>p. get (resolved_sources acc') p =
            (case map_of (entry # entries) p of Some cl \<Rightarrow> document (last cl)
             | None \<Rightarrow> get (resolved_sources acc) p)"
    using q by (simp add: vals e get_update split: option.splits)
  ultimately show ?case by blast
qed

lemma resolve_each_untouched:
  assumes "resolve_each h data strategy opts entries acc = Inr acc'"
    and "\<forall>cl. (p, cl) \<in> set entries \<longrightarrow>
           (\<exists>s m. resolve_switch h data strategy opts p cl = Inr (Undefined, s, m))"
  shows "get (resolved_data acc') p = get (resolved_data acc) p \<and>
         get (resolved_sources acc') p = get (resolved_sources acc) p \<and>
         (\<forall>e \<in> set (resolved_log acc'). log_parameter e = p \<longrightarrow> e \<in> set (resolved_log acc))"
  using assms
proof (induction entries arbitrary: acc)
  case Nil
  then show ?case by simp
next
  case (Cons entry entries)
  obtain q cl where e: "entry = (q, cl)" by (cases entry)
  from Cons.prems(1) obtain acc1 where
    step: "resolve_conflict h data strategy opts entry acc = Inr acc1"
    and rest: "resolve_each h data strategy opts entries acc1 = Inr acc'"
    by (auto split: sum.splits)
  have keep: "get (resolved_data acc1) p = get (resolved_data acc) p \<and>
         get (resolved_sources acc1) p = get (resolved_sources acc) p \<and>
         (\<forall>e \<in> set (resolved_log acc1). log_parameter e = p \<longrightarrow> e \<in> set (resolved_log acc))"
  proof (cases "q = p")
    case True
    with Cons.prems(2) e obtain s m where
      "resolve_switch h data strategy opts p cl = Inr (Undefined, s, m)" by auto
    with step True e have "acc1 = acc" by (simp add: resolve_conflict_def)
    then show ?thesis by simp
  next
    case False
    with step e show ?thesis
      by (auto simp: resolve_conflict_def get_update split: sum.splits prod.splits if_splits)
  qed
  from Cons.prems(2) have "\<forall>cl. (p, cl) \<in> set entries \<longrightarrow>
           (\<exists>s m. resolve_switch h data strategy opts p cl = Inr (Undefined, s, m))" by simp
  from Cons.IH [OF rest this] keep show ?case by auto
qed

lemma consolidateData_Inr:
  assumes "consolidateData h docs credit opts = Inr out"
  shows "\<exists>st r. extract_parameters docs credit = Inr st \<and>
           resolve_each h (consolidatedData st) (conflictResolution opts)
             \<lparr>customPriorities = co_customPriorities opts,
              manualResolutions = co_manualResolutions opts,
              opt_dataSources = dataSources st\<rparr>
             (st_conflicts st)
             \<lparr>resolved_data = consolidatedData st, resolved_sources = dataSources st,
              resolved_log = []\<rparr> = Inr r \<and>
           c_data out = resolved_data r \<and> c_sources out = resolved_sources r \<and>
           c_resolutionLog out = resolved_log r \<and>
           c_conflicts out = st_conflicts st"
  using assms
  by (auto simp: consolidateData_def resolveConflicts_def split: sum.splits)

subsection \<open>Two documents at odds\<close>

lemma gwp_data_facts:
  "doc_value ''EACr6'' ''GWP'' (gwp_data v) = Num (Fin v)"
  "supplies ''EACr6'' ''GWP'' (gwp_data v)"
  "doc_parameters ''EACr6'' (gwp_data v) = [''GWP'']"
  by (simp_all add: supplies_def doc_value_def doc_parameters_def non_empty_def gwp_data_def
      credit_values_def lookup_def)

lemma gwp_documents_plain:
  "\<not> names_inherited_member ''EACr6'' differing_documents"
  "\<not> names_inherited_member ''EACr6'' agreeing_documents"
  by (simp_all add: names_inherited_member_def differing_documents_def agreeing_documents_def
      gwp_data_facts inherited_def Object_prototype_members_def)

lemma arrivals_differing:
  "arrivals ''EACr6'' differing_documents ''GWP'' =
     [\<lparr>document = Str ''hvac_schedule'', cvalue = Num (Fin 675)\<rparr>,
      \<lparr>document = Str ''commissioning_report'', cvalue = Num (Fin 700)\<rparr>]"
  by (simp add: arrivals_def supplied_def gwp_data_facts differing_documents_def non_empty_def)

lemma differing_conflict:
  assumes "consolidateData h differing_documents ''EACr6'' opts = Inr out"
  shows "map_of (c_conflicts out) ''GWP'' =
     Some [\<lparr>document = Str ''hvac_schedule'', cvalue = Num (Fin 675)\<rparr>,
           \<lparr>document = Str ''commissioning_report'', cvalue = Num (Fin 700)\<rparr>]"
  using consolidateData_Inr [OF assms] by (auto simp: conflicts_lookup arrivals_differing)

section \<open>The claims about the rule evaluators\<close>

text \<open>
  Claim C1: every credit evaluation that awards the credit returns empty \<open>gaps\<close> and
  \<open>nonCompliant\<close> lists. \<open>EACr6RuleSet.assess\<close> and \<open>IEQCr5RuleSet.assess\<close> keep this
  (lemmas \<open>EACr6_awarded_no_findings\<close> and \<open>IEQCr5_awarded_no_findings\<close>).
  \<open>RuleEngine.evaluateEACr6\<close> does not: it copies the gaps of Option 1 into the result
  before it evaluates Option 2 and keeps them when Option 2 succeeds. For an R-32 system
  that lacks only the confirmation statement and whose calculated impact is 81, it returns
  status \<open>compliant\<close> with full points and the gap \<open>Confirmation Statement\<close>.
\<close>

theorem engine_awards_with_gaps:
  "status (evaluateCredit_EACr6 decimal_host r32_params ''IP'') = ''compliant'' \<and>
   awardedPoints (evaluateCredit_EACr6 decimal_host r32_params ''IP'') =
     re_maxPoints (evaluateCredit_EACr6 decimal_host r32_params ''IP'') \<and>
   re_gaps (evaluateCredit_EACr6 decimal_host r32_params ''IP'') = [''Confirmation Statement'']"
  by (simp add: evaluateCredit_r32)


text \<open>
  Claim C3 says that \<open>EACr6RuleSet.assess\<close> awards the credit through Option 1 whenever
  Refrigerant Used and Confirmation Statement are present, ODP is the number 0 and GWP is
  49.999. With presence read as elsewhere in the rule sets (a value other than
  \<^verbatim>\<open>undefined\<close>, \<^verbatim>\<open>null\<close> and the empty string, \<open>non_empty\<close>) it fails: a Confirmation
  Statement given as the number 0 is present, yet \<open>assessOption1\<close> tests
  \<^verbatim>\<open>!data['Confirmation Statement']\<close>, records it as a gap, and the assessment reports
  Option 2 without an award.
\<close>

theorem confirmation_zero_reports_option2:
  "non_empty (confirmation_zero_params ''Refrigerant Used'') \<and>
   non_empty (confirmation_zero_params ''Confirmation Statement'') \<and>
   confirmation_zero_params ''ODP'' = Num (Fin 0) \<and>
   confirmation_zero_params ''GWP'' = Num (Fin 49.999) \<and>
   EACr6_assess decimal_host (CalculationModule decimal_host) confirmation_zero_params ''IP'' =
     Inr \<lparr>creditId = ''EACr6'', creditName = ''Enhanced Refrigerant Management'',
          awarded = False, points = 0, maxPoints = 1,
          gaps = [''Refrigerant charge'', ''Leakage Rate'', ''Equipment Life'',
                  ''Equipment Cooling Capacity'', ''Equipment Quantity''],
          nonCompliant = [], option = Some 2,
          details = Option2_details \<lparr>o2_option = 2, o2_compliant = False,
            o2_gaps = [''Refrigerant charge'', ''Leakage Rate'', ''Equipment Life'',
                       ''Equipment Cooling Capacity'', ''Equipment Quantity''],
            o2_nonCompliant = [], o2_calculations = None\<rparr>\<rparr>"
  by (simp add: EACr6_assess_def option1_compliant_iff assessOption2_def
      refrigeration_gaps_def option2_calculate_def requiredParams_def
      confirmation_zero_params_def non_empty_def get_def Let_def)

text \<open>
  Claim C3 as amended: when every Option-1 condition holds at the boundary (Refrigerant
  Used and Confirmation Statement truthy, which is the rule set's own test \<^verbatim>\<open>!data[p]\<close>
  for these two parameters and holds for every non-empty string; ODP the number 0;
  GWP 49.999), \<open>EACr6RuleSet.assess\<close> awards the full points through Option 1 and does not
  report Option 2.
\<close>

theorem option1_boundary_awards:
  assumes "truthy (data ''Refrigerant Used'')"
    and "truthy (data ''Confirmation Statement'')"
    and "data ''ODP'' = Num (Fin 0)"
    and "data ''GWP'' = Num (Fin 49.999)"
  shows "\<exists>r. EACr6_assess h cm data units = Inr r \<and> awarded r \<and> points r = maxPoints r \<and>
             option r = Some 1 \<and> option r \<noteq> Some 2"
proof -
  have c: "o1_compliant (assessOption1 h data)"
    using assms by (simp add: option1_compliant_iff num_ge_def)
  have b: "hasBasicRefrigerantData data"
    using assms by (simp add: hasBasicRefrigerantData_def)
  show ?thesis
    by (simp add: EACr6_assess_option1 [OF b c])
qed

theorem option1_boundary_awards_witness:
  "truthy (boundary_params ''Refrigerant Used'') \<and>
   truthy (boundary_params ''Confirmation Statement'') \<and>
   boundary_params ''ODP'' = Num (Fin 0) \<and>
   boundary_params ''GWP'' = Num (Fin 49.999) \<and>
   (\<exists>r. EACr6_assess decimal_host (CalculationModule decimal_host) boundary_params ''IP'' = Inr r \<and>
        awarded r \<and> points r = maxPoints r \<and> option r = Some 1 \<and> option r \<noteq> Some 2)"
proof -
  have h: "truthy (boundary_params ''Refrigerant Used'')"
    "truthy (boundary_params ''Confirmation Statement'')"
    "boundary_params ''ODP'' = Num (Fin 0)"
    "boundary_params ''GWP'' = Num (Fin 49.999)"
    by (simp_all add: boundary_params_def get_def)
  from option1_boundary_awards [OF h, of decimal_host "CalculationModule decimal_host" "''IP''"] h
  show ?thesis by blast
qed

text \<open>
  Claim C9: an assessment returned by \<open>EACr6RuleSet.assess\<close> reports Option 1 only when
  the credit is awarded with the full points; whenever Option 1 is not fully compliant, or
  is skipped because Refrigerant Used, ODP or GWP is absent, it reports Option 2.
\<close>

theorem option1_reported_only_when_awarded:
  assumes "EACr6_assess h cm data units = Inr r"
  shows "(option r = Some 1 \<longrightarrow> awarded r \<and> points r = maxPoints r) \<and>
         (\<not> o1_compliant (assessOption1 h data) \<or> \<not> truthy (data ''Refrigerant Used'') \<or>
          data ''ODP'' = Undefined \<or> data ''GWP'' = Undefined \<longrightarrow> option r = Some 2)"
proof (cases "hasBasicRefrigerantData data \<and> o1_compliant (assessOption1 h data)")
  case True
  then show ?thesis
    using assms by (auto simp: EACr6_assess_option1 hasBasicRefrigerantData_def)
next
  case False
  show ?thesis
  proof (cases "assessOption2 h cm data units")
    case (Inl e)
    then show ?thesis using assms False by (simp add: EACr6_assess_throws)
  next
    case (Inr o2)
    then show ?thesis
      using assms False by (auto simp: EACr6_assess_option2)
  qed
qed

theorem option1_reported_only_when_awarded_witness:
  "(\<exists>r. EACr6_assess decimal_host (CalculationModule decimal_host) boundary_params ''IP'' = Inr r \<and>
        option r = Some 1 \<and> awarded r \<and> points r = maxPoints r) \<and>
   (\<exists>r. EACr6_assess decimal_host (CalculationModule decimal_host) no_params ''IP'' = Inr r \<and>
        \<not> truthy (no_params ''Refrigerant Used'') \<and> option r = Some 2)"
proof -
  have "\<not> truthy (no_params ''Refrigerant Used'')"
    by (simp add: no_params_def)
  with option1_reported_only_when_awarded [OF EACr6_assess_boundary]
    option1_reported_only_when_awarded [OF EACr6_assess_no_params]
  show ?thesis
    by (simp add: EACr6_assess_boundary EACr6_assess_no_params)
qed

text \<open>
  Claim C6: when a calculation that the evaluator invokes throws, the evaluator catches the
  exception, appends exactly one message to \<open>nonCompliant\<close> and still returns an
  assessment. For \<open>IEQCr5RuleSet\<close> the message follows those of Part 1; for
  \<open>EACr6RuleSet\<close> it is the only one. No exception of the calculation module escapes:
  the one exception \<open>EACr6RuleSet.assess\<close> can end with is the \<open>TypeError\<close> of its own
  \<open>Equipment Type\<close> check. \<open>IEQCr5RuleSet.assess\<close> has no exception at all.
\<close>

theorem calculation_errors_are_folded:
  "(truthy (data ''Total Individual Spaces'') \<and> truthy (data ''Controlled Spaces'') \<and>
    calculateSpacePercentage cm (data ''Total Individual Spaces'') (data ''Controlled Spaces'') = Inl e
    \<longrightarrow> nonCompliant (IEQCr5_assess h cm data units) =
          p1_nonCompliant (assessPart1 h data) @ [''Space calculation error: '' @ message e] \<and>
        \<not> awarded (IEQCr5_assess h cm data units)) \<and>
   (\<not> (hasBasicRefrigerantData data \<and> o1_compliant (assessOption1 h data)) \<and>
    refrigeration_gaps h data = Inr [] \<and>
    filter (\<lambda>param. data param = Undefined \<or> data param = Null \<or> data param = Str [])
      requiredParams = [] \<and>
    calculateRefrigerantImpact cm data units = Inl e
    \<longrightarrow> (\<exists>r. EACr6_assess h cm data units = Inr r \<and>
             nonCompliant r = [''Calculation error: '' @ message e] \<and> gaps r = [] \<and>
             \<not> awarded r)) \<and>
   ((\<exists>r. EACr6_assess h cm data units = Inr r) \<or>
    (\<exists>m. EACr6_assess h cm data units = Inl (TypeError m) \<and>
         refrigeration_gaps h data = Inl (TypeError m)))"
  using assessPart2_error [of data cm e h] IEQCr5_assess_fields [of h cm data units]
    EACr6_assess_calculation_error [of data h cm units e] EACr6_assess_escapes [of h cm data units]
  by (intro conjI impI; (elim conjE)?; simp)

theorem calculation_errors_are_folded_witness:
  "truthy (zero_spaces_params ''Total Individual Spaces'') \<and>
   truthy (zero_spaces_params ''Controlled Spaces'') \<and>
   calculateSpacePercentage (CalculationModule decimal_host)
     (zero_spaces_params ''Total Individual Spaces'') (zero_spaces_params ''Controlled Spaces'') =
     Inl (Error ''Total spaces must be greater than 0'') \<and>
   nonCompliant (IEQCr5_assess decimal_host (CalculationModule decimal_host) zero_spaces_params ''IP'') =
     [''Space calculation error: Total spaces must be greater than 0''] \<and>
   \<not> awarded (IEQCr5_assess decimal_host (CalculationModule decimal_host) zero_spaces_params ''IP'') \<and>
   calculateRefrigerantImpact throwing_module option2_params ''IP'' =
     Inl (Error ''Equipment data unavailable'') \<and>
   (\<exists>r. EACr6_assess decimal_host throwing_module option2_params ''IP'' = Inr r \<and>
        nonCompliant r = [''Calculation error: Equipment data unavailable''] \<and> gaps r = [] \<and>
        \<not> awarded r)"
proof -
  have a: "truthy (zero_spaces_params ''Total Individual Spaces'')"
    "truthy (zero_spaces_params ''Controlled Spaces'')"
    by (simp_all add: zero_spaces_params_def get_def)
  note A = calculation_errors_are_folded [where data = zero_spaces_params
      and cm = "CalculationModule decimal_host" and h = decimal_host and units = "''IP''"
      and e = "Error ''Total spaces must be greater than 0''"]
  note B = calculation_errors_are_folded [where data = option2_params
      and cm = throwing_module and h = decimal_host and units = "''IP''"
      and e = "Error ''Equipment data unavailable''"]
  from A a zero_spaces_throws assessPart1_zero_spaces
  have 1: "nonCompliant (IEQCr5_assess decimal_host (CalculationModule decimal_host)
             zero_spaces_params ''IP'') =
           [''Space calculation error: Total spaces must be greater than 0''] \<and>
         \<not> awarded (IEQCr5_assess decimal_host (CalculationModule decimal_host)
             zero_spaces_params ''IP'')"
    by simp
  from B option2_params_facts
  have 2: "\<exists>r. EACr6_assess decimal_host throwing_module option2_params ''IP'' = Inr r \<and>
        nonCompliant r = [''Calculation error: Equipment data unavailable''] \<and> gaps r = [] \<and>
        \<not> awarded r"
    by simp
  from a zero_spaces_throws 1 2 option2_params_facts(4) show ?thesis by blast
qed




text \<open>
  Claim C5: the thermal-control percentage fails whenever \<open>totalSpaces \<le> 0\<close> and is never
  clamped. \<open>CalculationModule.calculateSpacePercentage\<close> behaves so.
  \<open>CalculationEngine.calculateThermalControlPercentage\<close> does not fail: for a total of
  zero it returns \<^verbatim>\<open>null\<close>.
\<close>

theorem thermal_control_zero_total_returns_null:
  "calculateThermalControlPercentage decimal_host (Num (Fin 0)) (Num (Fin 5)) = Null"
  by (simp add: calculateThermalControlPercentage_def)

text \<open>
  Claim C5 as amended: \<open>calculateSpacePercentage\<close> throws whenever the parsed total is
  \<open>\<le> 0\<close>, whatever the controlled count, and for a positive total returns
  \<open>controlled / total * 100\<close> as computed, above 100 and below 0 included.
  \<open>calculateThermalControlPercentage\<close> returns \<^verbatim>\<open>null\<close> when either argument is falsy, and
  for a positive total and a non-zero controlled count the same unclamped percentage.
\<close>

theorem space_percentage_contract:
  "(num_le (parseFloat h totalSpaces) (Fin 0) \<longrightarrow>
      CalculationModule_calculateSpacePercentage h totalSpaces controlledSpaces =
        Inl (Error ''Total spaces must be greater than 0'')) \<and>
   (num_lt (Fin 0) (parseFloat h totalSpaces) \<longrightarrow>
      CalculationModule_calculateSpacePercentage h totalSpaces controlledSpaces =
        Inr (num_mul (num_div (parseFloat h controlledSpaces) (parseFloat h totalSpaces)) (Fin 100))) \<and>
   (0 < t \<longrightarrow>
      CalculationModule_calculateSpacePercentage h (Num (Fin t)) (Num (Fin c)) =
        Inr (Fin (c / t * 100))) \<and>
   (\<not> truthy totalSpaces \<or> \<not> truthy controlledSpaces \<longrightarrow>
      calculateThermalControlPercentage h totalSpaces controlledSpaces = Null) \<and>
   (0 < t \<and> c \<noteq> 0 \<longrightarrow>
      calculateThermalControlPercentage h (Num (Fin t)) (Num (Fin c)) = Num (Fin (c / t * 100)))"
  by (auto simp: CalculationModule_calculateSpacePercentage_def
      calculateThermalControlPercentage_def Let_def num_lt_le)

theorem space_percentage_contract_witness:
  "num_le (parseFloat decimal_host (Num (Fin 0))) (Fin 0) \<and>
   CalculationModule_calculateSpacePercentage decimal_host (Num (Fin 0)) (Num (Fin 5)) =
     Inl (Error ''Total spaces must be greater than 0'') \<and>
   CalculationModule_calculateSpacePercentage decimal_host (Num (Fin (- 3))) (Str ''abc'') =
     Inl (Error ''Total spaces must be greater than 0'') \<and>
   CalculationModule_calculateSpacePercentage decimal_host (Num (Fin 4)) (Num (Fin 6)) =
     Inr (Fin 150) \<and>
   CalculationModule_calculateSpacePercentage decimal_host (Num (Fin 4)) (Num (Fin (- 2))) =
     Inr (Fin (- 50)) \<and>
   calculateThermalControlPercentage decimal_host (Num (Fin 4)) (Num (Fin 0)) = Null \<and>
   calculateThermalControlPercentage decimal_host (Num (Fin 4)) (Num (Fin 6)) = Num (Fin 150)"
  using space_percentage_contract [of decimal_host "Num (Fin 0)" "Num (Fin 5)" 4 6]
    space_percentage_contract [of decimal_host "Num (Fin (- 3))" "Str ''abc''" 4 "- 2"]
    space_percentage_contract [of decimal_host "Num (Fin 4)" "Num (Fin 0)" 4 6]
  by simp

section \<open>The claims about the consolidator\<close>

text \<open>
  Consolidation ends with a \<open>TypeError\<close> when some document supplies a parameter under the
  name of a member that every object inherits (lemma \<open>consolidateData_throws\<close>), and
  returns otherwise (lemma \<open>consolidateData_returns\<close>).
\<close>

text \<open>
  Claim C4: under the \<open>latest\<close> policy every conflict resolves to the value and the source
  of the last candidate of its list, which is what the last document in processing order
  that supplies the parameter gave. The property holds for every conflict of every output;
  consolidation returns an output whenever no document supplies a parameter named like an
  inherited member.
\<close>

theorem latest_resolution:
  assumes "conflictResolution opts = ''latest''"
  shows "(\<not> names_inherited_member credit docs \<longrightarrow>
            (\<exists>out. consolidateData h docs credit opts = Inr out)) \<and>
     (\<forall>out. consolidateData h docs credit opts = Inr out \<longrightarrow>
        (\<forall>p cl. map_of (c_conflicts out) p = Some cl \<longrightarrow>
           cl \<noteq> [] \<and> lookup (c_data out) p = cvalue (last cl) \<and>
           lookup (c_sources out) p = document (last cl) \<and>
           (\<forall>pre d dd post.
              docs = pre @ (d, dd) # post \<and> supplies credit p dd \<and>
              (\<forall>x \<in> set post. \<not> supplies credit p (snd x)) \<longrightarrow>
              last cl = \<lparr>document = Str d, cvalue = doc_value credit p dd\<rparr>)))"
proof (intro conjI allI impI)
  assume "\<not> names_inherited_member credit docs"
  then show "\<exists>out. consolidateData h docs credit opts = Inr out"
    by (rule consolidateData_returns)
next
  fix out p cl
  assume out: "consolidateData h docs credit opts = Inr out"
    and m: "map_of (c_conflicts out) p = Some cl"
  from consolidateData_Inr [OF out] assms obtain st r where
    st: "extract_parameters docs credit = Inr st"
    and r: "resolve_each h (consolidatedData st) ''latest''
          \<lparr>customPriorities = co_customPriorities opts,
           manualResolutions = co_manualResolutions opts,
           opt_dataSources = dataSources st\<rparr>
          (st_conflicts st)
          \<lparr>resolved_data = consolidatedData st, resolved_sources = dataSources st,
           resolved_log = []\<rparr> = Inr r"
    and o: "c_data out = resolved_data r" "c_sources out = resolved_sources r"
      "c_conflicts out = st_conflicts st"
    by auto
  have wf: "\<forall>(p, cl) \<in> set (st_conflicts st). cl \<noteq> [] \<and> cvalue (last cl) \<noteq> Undefined"
    using conflicts_entry_wellformed [OF st] by fastforce
  from resolve_each_latest [OF wf conflicts_distinct [OF st], where h = h
      and data = "consolidatedData st"
      and opts = "\<lparr>customPriorities = co_customPriorities opts,
           manualResolutions = co_manualResolutions opts,
           opt_dataSources = dataSources st\<rparr>"
      and acc = "\<lparr>resolved_data = consolidatedData st, resolved_sources = dataSources st,
           resolved_log = []\<rparr>"] r
  have vals: "\<And>p. get (resolved_data r) p =
        (case map_of (st_conflicts st) p of Some cl \<Rightarrow> cvalue (last cl)
         | None \<Rightarrow> get (consolidatedData st) p)"
      "\<And>p. get (resolved_sources r) p =
        (case map_of (st_conflicts st) p of Some cl \<Rightarrow> document (last cl)
         | None \<Rightarrow> get (dataSources st) p)"
    by (auto split: option.splits)
  have cl: "cl = arrivals credit docs p" "2 \<le> length cl"
    using m o(3) by (simp_all add: conflicts_lookup [OF st] split: if_splits)
  have e: "(p, cl) \<in> set (st_conflicts st)"
    using m o(3) by (simp add: map_of_SomeD)
  have ne: "cl \<noteq> []" using cl(2) by auto
  then have l: "cvalue (last cl) \<noteq> Undefined" "\<exists>d. document (last cl) = Str d"
    using conflicts_entry_wellformed [OF st e] by simp_all
  have g: "get (c_data out) p = cvalue (last cl)" "get (c_sources out) p = document (last cl)"
    using m o by (simp_all add: vals)
  show "cl \<noteq> []" by (rule ne)
  show "lookup (c_data out) p = cvalue (last cl)"
    using lookup_own [of "c_data out" p] g(1) l(1) by simp
  show "lookup (c_sources out) p = document (last cl)"
    using lookup_own [of "c_sources out" p] g(2) l(2) by auto
  fix pre d dd post
  assume "docs = pre @ (d, dd) # post \<and> supplies credit p dd \<and>
          (\<forall>x \<in> set post. \<not> supplies credit p (snd x))"
  then show "last cl = \<lparr>document = Str d, cvalue = doc_value credit p dd\<rparr>"
    using arrivals_last [of docs pre d dd post credit p] cl(1) by blast
qed

text \<open>An earlier document with GWP 675 and a later one with GWP 700 resolve to 700.\<close>

theorem latest_resolution_witness:
  "conflictResolution latest_options = ''latest'' \<and>
   \<not> names_inherited_member ''EACr6'' differing_documents \<and>
   (\<exists>out. consolidateData decimal_host differing_documents ''EACr6'' latest_options = Inr out \<and>
      map_of (c_conflicts out) ''GWP'' =
        Some [\<lparr>document = Str ''hvac_schedule'', cvalue = Num (Fin 675)\<rparr>,
              \<lparr>document = Str ''commissioning_report'', cvalue = Num (Fin 700)\<rparr>] \<and>
      lookup (c_data out) ''GWP'' = Num (Fin 700) \<and>
      lookup (c_sources out) ''GWP'' = Str ''commissioning_report'')"
proof -
  have l: "conflictResolution latest_options = ''latest''"
    by (simp add: latest_options_def)
  note t = latest_resolution [OF l, of "''EACr6''" differing_documents decimal_host]
  from t gwp_documents_plain(1)
  obtain out where out: "consolidateData decimal_host differing_documents ''EACr6'' latest_options = Inr out"
    by blast
  from t out have r: "\<And>p cl. map_of (c_conflicts out) p = Some cl \<Longrightarrow>
        lookup (c_data out) p = cvalue (last cl) \<and> lookup (c_sources out) p = document (last cl)"
    by blast
  from r [OF differing_conflict [OF out]] differing_conflict [OF out] out l
    gwp_documents_plain(1)
  show ?thesis by simp
qed




text \<open>
  Claim C8: under the \<open>manual\<close> policy, a conflicted parameter without a manual choice, or
  whose chosen document is not among the candidates, keeps the value and the source that
  the extraction recorded first, which are those of its first candidate, and the
  resolution log has no entry for it. The property holds for every conflict of every
  output; consolidation returns an output whenever no document supplies a parameter named
  like an inherited member.
\<close>

theorem manual_unmatched_left_unresolved:
  assumes "conflictResolution opts = ''manual''"
  shows "(\<not> names_inherited_member credit docs \<longrightarrow>
            (\<exists>out. consolidateData h docs credit opts = Inr out)) \<and>
     (\<forall>out. consolidateData h docs credit opts = Inr out \<longrightarrow>
        (\<exists>st. extract_parameters docs credit = Inr st \<and>
           (\<forall>p cl. map_of (c_conflicts out) p = Some cl \<and>
              (co_manualResolutions opts p = None \<or>
               (\<exists>d. co_manualResolutions opts p = Some d \<and>
                    (\<forall>c \<in> set cl. document c \<noteq> d))) \<longrightarrow>
              lookup (c_data out) p = cvalue (hd cl) \<and>
              lookup (c_sources out) p = document (hd cl) \<and>
              lookup (c_data out) p = lookup (consolidatedData st) p \<and>
              lookup (c_sources out) p = lookup (dataSources st) p \<and>
              (\<forall>e \<in> set (c_resolutionLog out). log_parameter e \<noteq> p))))"
proof (intro conjI allI impI)
  assume "\<not> names_inherited_member credit docs"
  then show "\<exists>out. consolidateData h docs credit opts = Inr out"
    by (rule consolidateData_returns)
next
  fix out
  assume out: "consolidateData h docs credit opts = Inr out"
  from consolidateData_Inr [OF out] assms obtain st r where
    st: "extract_parameters docs credit = Inr st"
    and r: "resolve_each h (consolidatedData st) ''manual''
          \<lparr>customPriorities = co_customPriorities opts,
           manualResolutions = co_manualResolutions opts,
           opt_dataSources = dataSources st\<rparr> (st_conflicts st)
          \<lparr>resolved_data = consolidatedData st, resolved_sources = dataSources st,
           resolved_log = []\<rparr> = Inr r"
    and o: "c_data out = resolved_data r" "c_sources out = resolved_sources r"
      "c_conflicts out = st_conflicts st" "c_resolutionLog out = resolved_log r"
    by auto
  let ?opts = "\<lparr>customPriorities = co_customPriorities opts,
           manualResolutions = co_manualResolutions opts,
           opt_dataSources = dataSources st\<rparr>"
  have "\<forall>p cl. map_of (c_conflicts out) p = Some cl \<and>
        (co_manualResolutions opts p = None \<or>
         (\<exists>d. co_manualResolutions opts p = Some d \<and> (\<forall>c \<in> set cl. document c \<noteq> d))) \<longrightarrow>
        lookup (c_data out) p = cvalue (hd cl) \<and> lookup (c_sources out) p = document (hd cl) \<and>
        lookup (c_data out) p = lookup (consolidatedData st) p \<and>
        lookup (c_sources out) p = lookup (dataSources st) p \<and>
        (\<forall>e \<in> set (c_resolutionLog out). log_parameter e \<noteq> p)"
  proof (intro allI impI, elim conjE)
    fix p cl
    assume m: "map_of (c_conflicts out) p = Some cl"
      and choice: "co_manualResolutions opts p = None \<or>
         (\<exists>d. co_manualResolutions opts p = Some d \<and> (\<forall>c \<in> set cl. document c \<noteq> d))"
    have cl: "cl = arrivals credit docs p" "2 \<le> length cl"
      using m o(3) by (simp_all add: conflicts_lookup [OF st] split: if_splits)
    have sw: "\<exists>s m. resolve_switch h (consolidatedData st) ''manual'' ?opts p cl =
                Inr (Undefined, s, m)"
    proof (cases "co_manualResolutions opts p")
      case None
      then show ?thesis by (simp add: resolve_switch_def)
    next
      case (Some d)
      with choice have "\<forall>c \<in> set cl. document c \<noteq> d" by simp
      then have "find (\<lambda>c. strict_eq (document c) d) cl = None"
        by (auto simp: find_None_iff strict_eq_def)
      with Some show ?thesis by (simp add: resolve_switch_def)
    qed
    have "\<forall>cl'. (p, cl') \<in> set (st_conflicts st) \<longrightarrow>
           (\<exists>s m. resolve_switch h (consolidatedData st) ''manual'' ?opts p cl' =
                Inr (Undefined, s, m))"
      using sw cl(1) conflicts_entry [OF st, of p] by blast
    from resolve_each_untouched [OF r this]
    have u: "get (resolved_data r) p = get (consolidatedData st) p"
      "get (resolved_sources r) p = get (dataSources st) p"
      "\<forall>e \<in> set (resolved_log r). log_parameter e \<noteq> p"
      by auto
    obtain c cs where a: "arrivals credit docs p = c # cs"
      using cl by (cases "arrivals credit docs p") auto
    then have w: "cvalue c \<noteq> Undefined" "\<exists>d. document c = Str d"
      using arrivals_wellformed [OF st, of c p] by simp_all
    have f: "get (consolidatedData st) p = cvalue c" "get (dataSources st) p = document c"
      using a by (simp_all add: first_recorded [OF st])
    have k: "lookup (consolidatedData st) p = cvalue c" "lookup (dataSources st) p = document c"
      "lookup (resolved_data r) p = cvalue c" "lookup (resolved_sources r) p = document c"
      using lookup_own [of "consolidatedData st" p] lookup_own [of "dataSources st" p]
        lookup_own [of "resolved_data r" p] lookup_own [of "resolved_sources r" p] f u w
      by auto
    show "lookup (c_data out) p = cvalue (hd cl) \<and> lookup (c_sources out) p = document (hd cl) \<and>
        lookup (c_data out) p = lookup (consolidatedData st) p \<and>
        lookup (c_sources out) p = lookup (dataSources st) p \<and>
        (\<forall>e \<in> set (c_resolutionLog out). log_parameter e \<noteq> p)"
      using u(3) o cl(1) a k by simp
  qed
  with st show "\<exists>st. extract_parameters docs credit = Inr st \<and>
           (\<forall>p cl. map_of (c_conflicts out) p = Some cl \<and>
              (co_manualResolutions opts p = None \<or>
               (\<exists>d. co_manualResolutions opts p = Some d \<and>
                    (\<forall>c \<in> set cl. document c \<noteq> d))) \<longrightarrow>
              lookup (c_data out) p = cvalue (hd cl) \<and>
              lookup (c_sources out) p = document (hd cl) \<and>
              lookup (c_data out) p = lookup (consolidatedData st) p \<and>
              lookup (c_sources out) p = lookup (dataSources st) p \<and>
              (\<forall>e \<in> set (c_resolutionLog out). log_parameter e \<noteq> p))"
    by blast
qed

theorem manual_unmatched_left_unresolved_witness:
  "conflictResolution manual_options = ''manual'' \<and>
   \<not> names_inherited_member ''EACr6'' differing_documents \<and>
   co_manualResolutions manual_options ''GWP'' = Some (Str ''mechanical_drawing'') \<and>
   (\<exists>out. consolidateData decimal_host differing_documents ''EACr6'' manual_options = Inr out \<and>
      map_of (c_conflicts out) ''GWP'' =
        Some [\<lparr>document = Str ''hvac_schedule'', cvalue = Num (Fin 675)\<rparr>,
              \<lparr>document = Str ''commissioning_report'', cvalue = Num (Fin 700)\<rparr>] \<and>
      lookup (c_data out) ''GWP'' = Num (Fin 675) \<and>
      lookup (c_sources out) ''GWP'' = Str ''hvac_schedule'' \<and>
      (\<forall>e \<in> set (c_resolutionLog out). log_parameter e \<noteq> ''GWP'')) \<and>
   co_manualResolutions manual_options_without_choice ''GWP'' = None \<and>
   (\<exists>out. consolidateData decimal_host differing_documents ''EACr6''
            manual_options_without_choice = Inr out \<and>
      lookup (c_data out) ''GWP'' = Num (Fin 675) \<and>
      lookup (c_sources out) ''GWP'' = Str ''hvac_schedule'' \<and>
      (\<forall>e \<in> set (c_resolutionLog out). log_parameter e \<noteq> ''GWP''))"
proof -
  have m: "conflictResolution manual_options = ''manual''"
    "co_manualResolutions manual_options ''GWP'' = Some (Str ''mechanical_drawing'')"
    "conflictResolution manual_options_without_choice = ''manual''"
    "co_manualResolutions manual_options_without_choice ''GWP'' = None"
    by (simp_all add: manual_options_def manual_options_without_choice_def)
  note t1 = manual_unmatched_left_unresolved [OF m(1), of "''EACr6''" differing_documents
      decimal_host]
  note t2 = manual_unmatched_left_unresolved [OF m(3), of "''EACr6''" differing_documents
      decimal_host]
  from t1 gwp_documents_plain(1)
  obtain out1 where out1: "consolidateData decimal_host differing_documents ''EACr6'' manual_options = Inr out1"
    by blast
  from t1 out1 have r1: "\<And>p cl. map_of (c_conflicts out1) p = Some cl \<Longrightarrow>
        (co_manualResolutions manual_options p = None \<or>
         (\<exists>d. co_manualResolutions manual_options p = Some d \<and> (\<forall>c \<in> set cl. document c \<noteq> d))) \<Longrightarrow>
        lookup (c_data out1) p = cvalue (hd cl) \<and> lookup (c_sources out1) p = document (hd cl) \<and>
        (\<forall>e \<in> set (c_resolutionLog out1). log_parameter e \<noteq> p)"
    by blast
  from t2 gwp_documents_plain(1)
  obtain out2 where out2: "consolidateData decimal_host differing_documents ''EACr6''
        manual_options_without_choice = Inr out2"
    by blast
  from t2 out2 have r2: "\<And>p cl. map_of (c_conflicts out2) p = Some cl \<Longrightarrow>
        (co_manualResolutions manual_options_without_choice p = None \<or>
         (\<exists>d. co_manualResolutions manual_options_without_choice p = Some d \<and>
              (\<forall>c \<in> set cl. document c \<noteq> d))) \<Longrightarrow>
        lookup (c_data out2) p = cvalue (hd cl) \<and> lookup (c_sources out2) p = document (hd cl) \<and>
        (\<forall>e \<in> set (c_resolutionLog out2). log_parameter e \<noteq> p)"
    by blast
  have 1: "lookup (c_data out1) ''GWP'' = Num (Fin 675) \<and>
      lookup (c_sources out1) ''GWP'' = Str ''hvac_schedule'' \<and>
      (\<forall>e \<in> set (c_resolutionLog out1). log_parameter e \<noteq> ''GWP'')"
    using r1 [OF differing_conflict [OF out1]] m(2) by simp
  have 2: "lookup (c_data out2) ''GWP'' = Num (Fin 675) \<and>
      lookup (c_sources out2) ''GWP'' = Str ''hvac_schedule'' \<and>
      (\<forall>e \<in> set (c_resolutionLog out2). log_parameter e \<noteq> ''GWP'')"
    using r2 [OF differing_conflict [OF out2]] m(4) by simp
  from 1 2 out1 out2 m differing_conflict [OF out1] gwp_documents_plain(1)
  show ?thesis by blast
qed

end
